theory Spec2Isabelle
  imports Complex_Main "HOL-Library.Sublist"
begin

section \<open>Python values used by jellyfin_suggested.py\<close>

text \<open>
  The program is a single Python module. Its functions are embedded as HOL functions over
  explicit state: the state of the two remote services (an arbitrary type \<open>'w\<close>) and the
  list of HTTP requests sent so far. Exceptions are values of \<open>py_exn\<close>.

  Conventions of the embedding:
  \<^item> Python's \<open>int\<close> is \<open>int\<close>; JSON numbers that are compared or sorted (ratings) are
    \<open>rat\<close>: finite ints and floats compare in Python as the rationals they denote.
  \<^item> Python's builtins \<open>int(s)\<close> and \<open>float(s)\<close> on strings are parameters \<open>py_int\<close>,
    \<open>py_float\<close> of the functions that call them; \<open>None\<close> is their \<open>ValueError\<close>.
  \<^item> A JSON object read with \<open>d['k']\<close> is a record field; a key read with \<open>d.get('k')\<close>
    is an optional field. The bodies the services send are taken to have the keys the
    program reads with \<open>d['k']\<close>, with values of the JSON types it expects; a body
    that cannot be decoded is a failed request.
  \<^item> Logging is left out: it changes no value the program computes.
\<close>

datatype py_exn = ValueError | RuntimeFault

text \<open>\<open>xs[:n]\<close> for a Python int \<open>n\<close>: a negative bound counts from the end.\<close>

definition py_slice_to :: "int \<Rightarrow> 'a list \<Rightarrow> 'a list" where
  "py_slice_to n xs =
     (if 0 \<le> n then take (nat n) xs else take (length xs - nat (- n)) xs)"

text \<open>\<open>s.rstrip('/')\<close>.\<close>

definition rstrip_slash :: "string \<Rightarrow> string" where
  "rstrip_slash s = rev (dropWhile (\<lambda>c. c = CHR ''/'') (rev s))"

text \<open>
  \<open>xs.sort(key=key, reverse=True)\<close>. Python's sort is stable, and with \<open>reverse=True\<close>
  elements with equal keys keep their original order: the list is reversed, sorted
  stably in ascending order and reversed again. \<open>sort_key\<close> is a stable sort, and a stable
  sort of a list by a linearly ordered key has one result only.
\<close>

definition py_sort_reverse :: "('a \<Rightarrow> 'k::linorder) \<Rightarrow> 'a list \<Rightarrow> 'a list" where
  "py_sort_reverse key xs = rev (sort_key key (rev xs))"

section \<open>Config\<close>

record config =
  jellyfin_url :: string
  jellyfin_api_key :: string
  tmdb_api_key :: string
  playlist_name :: string
  max_watched_items :: int
  max_similar_per_item :: int
  max_playlist_items :: int
  min_tmdb_rating :: rat
  min_tmdb_votes :: int
  request_timeout :: int

text \<open>\<open>os.getenv(key, default)\<close> on the process environment.\<close>

definition getenv :: "(string \<rightharpoonup> string) \<Rightarrow> string \<Rightarrow> string \<Rightarrow> string" where
  "getenv env key dflt = (case env key of Some v \<Rightarrow> v | None \<Rightarrow> dflt)"

text \<open>
  \<open>Config.from_env\<close>. The three mandatory values are read with the default \<open>''\<close> and
  tested with \<open>all([...])\<close>, which is false when one of them is the empty string. The
  numeric settings are converted with \<open>int\<close> and \<open>float\<close>, which raise \<open>ValueError\<close> too.
\<close>

definition from_env ::
  "(string \<Rightarrow> int option) \<Rightarrow> (string \<Rightarrow> rat option) \<Rightarrow> (string \<rightharpoonup> string)
     \<Rightarrow> py_exn + config" where
  "from_env py_int py_float env =
     (let url = rstrip_slash (getenv env ''JELLYFIN_URL'' '''');
          api_key = getenv env ''JELLYFIN_API_KEY'' '''';
          tmdb_key = getenv env ''TMDB_API_KEY'' ''''
      in if \<not> (url \<noteq> [] \<and> api_key \<noteq> [] \<and> tmdb_key \<noteq> []) then Inl ValueError
         else
          (case py_int (getenv env ''MAX_WATCHED_ITEMS'' ''20'') of
             None \<Rightarrow> Inl ValueError
           | Some watched \<Rightarrow>
          (case py_int (getenv env ''MAX_SIMILAR_PER_ITEM'' ''5'') of
             None \<Rightarrow> Inl ValueError
           | Some similar \<Rightarrow>
          (case py_int (getenv env ''MAX_PLAYLIST_ITEMS'' ''50'') of
             None \<Rightarrow> Inl ValueError
           | Some playlist \<Rightarrow>
          (case py_float (getenv env ''MIN_TMDB_RATING'' ''6.0'') of
             None \<Rightarrow> Inl ValueError
           | Some rating \<Rightarrow>
          (case py_int (getenv env ''MIN_TMDB_VOTES'' ''50'') of
             None \<Rightarrow> Inl ValueError
           | Some votes \<Rightarrow>
          (case py_int (getenv env ''REQUEST_TIMEOUT'' ''30'') of
             None \<Rightarrow> Inl ValueError
           | Some timeout \<Rightarrow>
               Inr \<lparr> jellyfin_url = url, jellyfin_api_key = api_key,
                     tmdb_api_key = tmdb_key,
                     playlist_name = getenv env ''PLAYLIST_NAME'' ''Suggested For You'',
                     max_watched_items = watched, max_similar_per_item = similar,
                     max_playlist_items = playlist, min_tmdb_rating = rating,
                     min_tmdb_votes = votes, request_timeout = timeout \<rparr>)))))))"

section \<open>JSON objects of the two services\<close>

text \<open>
  One record stands for the objects the media server returns (users, library items,
  watched items, playlists, playlist entries): \<open>Id\<close> and \<open>Name\<close> are read with \<open>[...]\<close>,
  \<open>ProviderIds.Tmdb\<close> and \<open>SeriesId\<close> with \<open>.get\<close>, \<open>PlaylistItemId\<close> with \<open>[...]\<close> on
  playlist entries.
\<close>

record jf_item =
  item_Id :: string
  item_Name :: string
  ProviderIds_Tmdb :: "string option"
  SeriesId :: "string option"
  PlaylistItemId :: string

text \<open>An element of \<open>results\<close> in the provider's answer.\<close>

record tmdb_result =
  result_id :: int
  result_title :: "string option"
  result_name :: "string option"
  result_vote_average :: "rat option"
  result_vote_count :: "int option"

text \<open>The dictionaries \<open>get_similar\<close> returns: keys \<open>id\<close>, \<open>title\<close>, \<open>vote_average\<close>.\<close>

record similar =
  similar_id :: int
  similar_title :: "string option"
  similar_vote_average :: rat

text \<open>The dictionaries of \<open>suggested_items\<close>: keys \<open>Id\<close>, \<open>Name\<close>, \<open>Type\<close>, \<open>Score\<close>.\<close>

record suggestion =
  Id :: string
  Name :: string
  Type :: string
  Score :: rat

section \<open>The network\<close>

text \<open>
  The requests the two clients send (the base URL, the API keys and the fixed query
  parameters are left out), in the order of the methods of the source.
\<close>

datatype request =
    GET_Users
  | GET_Items_watched string string int
  | GET_Items_library string
  | GET_Items_playlists string
  | POST_Playlists string string "string list"
  | GET_Playlist_Items string string
  | DELETE_Playlist_Items string "string list"
  | POST_Playlist_Items string string "string list"
  | GET_Item string string
  | GET_similar string int

fun is_write :: "request \<Rightarrow> bool" where
  "is_write (POST_Playlists u n ids) = True"
| "is_write (DELETE_Playlist_Items p ids) = True"
| "is_write (POST_Playlist_Items p u ids) = True"
| "is_write rq = False"

text \<open>
  What a request comes back with: a status code and the decoded body, or an exception
  raised inside the \<open>async with\<close> block (connection failure, timeout, undecodable body).
\<close>

datatype 'a reply = Reply nat 'a | Fault

text \<open>
  The services are arbitrary: each endpoint maps a request and the state of the world to
  a reply and a new state. The body of a list endpoint is the list under \<open>Items\<close> (or
  \<open>results\<close>), empty when the key is missing, as \<open>data.get('Items', [])\<close> reads it.
\<close>

record 'w network =
  users_ep :: "request \<Rightarrow> 'w \<Rightarrow> jf_item list reply \<times> 'w"
  items_ep :: "request \<Rightarrow> 'w \<Rightarrow> jf_item list reply \<times> 'w"
  item_ep :: "request \<Rightarrow> 'w \<Rightarrow> jf_item reply \<times> 'w"
  create_ep :: "request \<Rightarrow> 'w \<Rightarrow> string option reply \<times> 'w"
  write_ep :: "request \<Rightarrow> 'w \<Rightarrow> unit reply \<times> 'w"
  similar_ep :: "request \<Rightarrow> 'w \<Rightarrow> tmdb_result list reply \<times> 'w"

type_synonym 'w state = "'w \<times> request list"

definition send ::
  "(request \<Rightarrow> 'w \<Rightarrow> 'a reply \<times> 'w) \<Rightarrow> request \<Rightarrow> 'w state \<Rightarrow> 'a reply \<times> 'w state" where
  "send ep rq s = (case ep rq (fst s) of (r, w') \<Rightarrow> (r, (w', snd s @ [rq])))"

section \<open>TMDbClient\<close>

text \<open>\<open>item.get('title') or item.get('name')\<close>: an empty title is falsy.\<close>

definition title_or_name :: "tmdb_result \<Rightarrow> string option" where
  "title_or_name item =
     (case result_title item of
        Some t \<Rightarrow> if t \<noteq> [] then Some t else result_name item
      | None \<Rightarrow> result_name item)"

definition vote_avg :: "tmdb_result \<Rightarrow> rat" where
  "vote_avg item = (case result_vote_average item of Some v \<Rightarrow> v | None \<Rightarrow> 0)"

definition vote_count :: "tmdb_result \<Rightarrow> int" where
  "vote_count item = (case result_vote_count item of Some v \<Rightarrow> v | None \<Rightarrow> 0)"

text \<open>The body of the \<open>for\<close> loop of \<open>get_similar\<close>, over the items it is given.\<close>

fun similar_results :: "config \<Rightarrow> tmdb_result list \<Rightarrow> similar list \<Rightarrow> similar list" where
  "similar_results cfg [] results = results"
| "similar_results cfg (item # rest) results =
     similar_results cfg rest
       (if min_tmdb_rating cfg \<le> vote_avg item \<and> min_tmdb_votes cfg \<le> vote_count item
        then results @ [\<lparr> similar_id = result_id item,
                          similar_title = title_or_name item,
                          similar_vote_average = vote_avg item \<rparr>]
        else results)"

text \<open>
  \<open>TMDbClient.get_similar\<close>: the loop runs over \<open>data.get('results', [])[:max_similar_per_item]\<close>;
  any other status, and any exception, give the empty list.
\<close>

definition get_similar ::
  "config \<Rightarrow> 'w network \<Rightarrow> int \<Rightarrow> string \<Rightarrow> 'w state \<Rightarrow> similar list \<times> 'w state" where
  "get_similar cfg net tmdb_id media_type s =
     (let endpoint = (if media_type = ''Movie'' then ''movie'' else ''tv'') in
      case send (similar_ep net) (GET_similar endpoint tmdb_id) s of
        (Reply status results_body, s') \<Rightarrow>
          (if status = 200
           then similar_results cfg (py_slice_to (max_similar_per_item cfg) results_body) []
           else [], s')
      | (Fault, s') \<Rightarrow> ([], s'))"

section \<open>JellyfinClient\<close>

text \<open>
  The methods of the media-server client have no \<open>try\<close>: an exception raised by the
  request leaves the method (\<open>Inl\<close>). A status other than the expected one gives the
  method's empty result.
\<close>

definition get_users :: "'w network \<Rightarrow> 'w state \<Rightarrow> (py_exn + jf_item list) \<times> 'w state" where
  "get_users net s =
     (case send (users_ep net) GET_Users s of
        (Reply status body, s') \<Rightarrow> (Inr (if status = 200 then body else []), s')
      | (Fault, s') \<Rightarrow> (Inl RuntimeFault, s'))"

definition get_watched_items ::
  "config \<Rightarrow> 'w network \<Rightarrow> string \<Rightarrow> string \<Rightarrow> 'w state
     \<Rightarrow> (py_exn + jf_item list) \<times> 'w state" where
  "get_watched_items cfg net user_id media_type s =
     (case send (items_ep net)
             (GET_Items_watched user_id media_type (max_watched_items cfg)) s of
        (Reply status body, s') \<Rightarrow> (Inr (if status = 200 then body else []), s')
      | (Fault, s') \<Rightarrow> (Inl RuntimeFault, s'))"

text \<open>
  The loop of \<open>get_library_items\<close> that fills the dictionary: an item with a truthy
  \<open>Tmdb\<close> value is stored under \<open>int(tmdb_id)\<close>, a later item replacing an earlier one
  with the same key.
\<close>

fun index_items ::
  "(string \<Rightarrow> int option) \<Rightarrow> jf_item list \<Rightarrow> (int \<rightharpoonup> jf_item) \<Rightarrow> py_exn + (int \<rightharpoonup> jf_item)" where
  "index_items py_int [] items = Inr items"
| "index_items py_int (item # rest) items =
     (case ProviderIds_Tmdb item of
        None \<Rightarrow> index_items py_int rest items
      | Some tmdb_id \<Rightarrow>
          if tmdb_id = [] then index_items py_int rest items
          else (case py_int tmdb_id of
                  None \<Rightarrow> Inl ValueError
                | Some k \<Rightarrow> index_items py_int rest (items(k \<mapsto> item))))"

definition get_library_items ::
  "(string \<Rightarrow> int option) \<Rightarrow> 'w network \<Rightarrow> string \<Rightarrow> 'w state
     \<Rightarrow> (py_exn + (int \<rightharpoonup> jf_item)) \<times> 'w state" where
  "get_library_items py_int net media_type s =
     (case send (items_ep net) (GET_Items_library media_type) s of
        (Reply status body, s') \<Rightarrow>
          (if status = 200 then index_items py_int body Map.empty else Inr Map.empty, s')
      | (Fault, s') \<Rightarrow> (Inl RuntimeFault, s'))"

definition get_user_playlists ::
  "'w network \<Rightarrow> string \<Rightarrow> 'w state \<Rightarrow> (py_exn + jf_item list) \<times> 'w state" where
  "get_user_playlists net user_id s =
     (case send (items_ep net) (GET_Items_playlists user_id) s of
        (Reply status body, s') \<Rightarrow> (Inr (if status = 200 then body else []), s')
      | (Fault, s') \<Rightarrow> (Inl RuntimeFault, s'))"

definition create_playlist ::
  "'w network \<Rightarrow> string \<Rightarrow> string \<Rightarrow> string list \<Rightarrow> 'w state
     \<Rightarrow> (py_exn + string option) \<times> 'w state" where
  "create_playlist net user_id name item_ids s =
     (case send (create_ep net) (POST_Playlists user_id name item_ids) s of
        (Reply status body, s') \<Rightarrow> (Inr (if status = 200 then body else None), s')
      | (Fault, s') \<Rightarrow> (Inl RuntimeFault, s'))"

definition get_playlist_items ::
  "'w network \<Rightarrow> string \<Rightarrow> string \<Rightarrow> 'w state \<Rightarrow> (py_exn + jf_item list) \<times> 'w state" where
  "get_playlist_items net playlist_id user_id s =
     (case send (items_ep net) (GET_Playlist_Items playlist_id user_id) s of
        (Reply status body, s') \<Rightarrow> (Inr (if status = 200 then body else []), s')
      | (Fault, s') \<Rightarrow> (Inl RuntimeFault, s'))"

definition clear_playlist ::
  "'w network \<Rightarrow> string \<Rightarrow> string list \<Rightarrow> 'w state \<Rightarrow> (py_exn + bool) \<times> 'w state" where
  "clear_playlist net playlist_id item_ids s =
     (if item_ids = [] then (Inr True, s)
      else case send (write_ep net) (DELETE_Playlist_Items playlist_id item_ids) s of
             (Reply status body, s') \<Rightarrow> (Inr (status = 204), s')
           | (Fault, s') \<Rightarrow> (Inl RuntimeFault, s'))"

definition add_to_playlist ::
  "'w network \<Rightarrow> string \<Rightarrow> string \<Rightarrow> string list \<Rightarrow> 'w state
     \<Rightarrow> (py_exn + bool) \<times> 'w state" where
  "add_to_playlist net playlist_id user_id item_ids s =
     (if item_ids = [] then (Inr True, s)
      else case send (write_ep net) (POST_Playlist_Items playlist_id user_id item_ids) s of
             (Reply status body, s') \<Rightarrow> (Inr (status = 204), s')
           | (Fault, s') \<Rightarrow> (Inl RuntimeFault, s'))"

section \<open>PlaylistGenerator\<close>

definition get_series_info ::
  "'w network \<Rightarrow> string \<Rightarrow> string \<Rightarrow> 'w state \<Rightarrow> (py_exn + jf_item option) \<times> 'w state" where
  "get_series_info net user_id series_id s =
     (case send (item_ep net) (GET_Item series_id user_id) s of
        (Reply status body, s') \<Rightarrow> (Inr (if status = 200 then Some body else None), s')
      | (Fault, s') \<Rightarrow> (Inl RuntimeFault, s'))"

text \<open>
  \<open>process_user\<close>, the loop "Extract unique series from episodes": \<open>seen_series\<close> and
  \<open>unique_series\<close> are the two accumulators.
\<close>

fun extract_unique_series ::
  "'w network \<Rightarrow> string \<Rightarrow> jf_item list \<Rightarrow> string set \<Rightarrow> jf_item list \<Rightarrow> 'w state
     \<Rightarrow> (py_exn + jf_item list) \<times> 'w state" where
  "extract_unique_series net user_id [] seen_series unique_series s = (Inr unique_series, s)"
| "extract_unique_series net user_id (episode # rest) seen_series unique_series s =
     (case SeriesId episode of
        None \<Rightarrow> extract_unique_series net user_id rest seen_series unique_series s
      | Some series_id \<Rightarrow>
          if series_id \<noteq> [] \<and> series_id \<notin> seen_series then
            (case get_series_info net user_id series_id s of
               (Inl e, s') \<Rightarrow> (Inl e, s')
             | (Inr series_info, s') \<Rightarrow>
                 extract_unique_series net user_id rest (insert series_id seen_series)
                   (case series_info of
                      Some info \<Rightarrow> unique_series @ [info]
                    | None \<Rightarrow> unique_series) s')
          else extract_unique_series net user_id rest seen_series unique_series s)"

text \<open>
  The two loops "Collect watched TMDB IDs to exclude" are one loop run twice on the same
  set: over \<open>watched_movies\<close>, then over \<open>unique_series\<close>.
\<close>

fun collect_watched_ids ::
  "(string \<Rightarrow> int option) \<Rightarrow> jf_item list \<Rightarrow> int set \<Rightarrow> py_exn + int set" where
  "collect_watched_ids py_int [] watched_tmdb_ids = Inr watched_tmdb_ids"
| "collect_watched_ids py_int (item # rest) watched_tmdb_ids =
     (case ProviderIds_Tmdb item of
        None \<Rightarrow> collect_watched_ids py_int rest watched_tmdb_ids
      | Some tmdb_id \<Rightarrow>
          if tmdb_id = [] then collect_watched_ids py_int rest watched_tmdb_ids
          else (case py_int tmdb_id of
                  None \<Rightarrow> Inl ValueError
                | Some k \<Rightarrow> collect_watched_ids py_int rest (insert k watched_tmdb_ids)))"

text \<open>
  The inner loop \<open>for s in similar\<close>. The source has it twice, for movies with
  \<open>movie_library\<close> and \<open>'Movie'\<close> and for series with \<open>series_library\<close> and \<open>'Series'\<close>;
  \<open>library\<close> and \<open>media_type\<close> are the two differences.
\<close>

fun add_similar ::
  "(int \<rightharpoonup> jf_item) \<Rightarrow> int set \<Rightarrow> string \<Rightarrow> similar list \<Rightarrow> suggestion list
     \<Rightarrow> suggestion list" where
  "add_similar library watched_tmdb_ids media_type [] suggested_items = suggested_items"
| "add_similar library watched_tmdb_ids media_type (s # rest) suggested_items =
     add_similar library watched_tmdb_ids media_type rest
       (case library (similar_id s) of
          None \<Rightarrow> suggested_items
        | Some jellyfin_item \<Rightarrow>
            if similar_id s \<notin> watched_tmdb_ids
               \<and> item_Id jellyfin_item \<notin> set (map Id suggested_items)
            then suggested_items @
                   [\<lparr> Id = item_Id jellyfin_item, Name = item_Name jellyfin_item,
                      Type = media_type, Score = similar_vote_average s \<rparr>]
            else suggested_items)"

text \<open>
  The outer loops "Get similar movies" and "Get similar series", over the watched items
  they are given (the caller takes the slice).
\<close>

fun similar_loop ::
  "(string \<Rightarrow> int option) \<Rightarrow> config \<Rightarrow> 'w network \<Rightarrow> (int \<rightharpoonup> jf_item) \<Rightarrow> int set \<Rightarrow> string
     \<Rightarrow> jf_item list \<Rightarrow> suggestion list \<Rightarrow> 'w state
     \<Rightarrow> (py_exn + suggestion list) \<times> 'w state" where
  "similar_loop py_int cfg net library watched_tmdb_ids media_type [] suggested_items s =
     (Inr suggested_items, s)"
| "similar_loop py_int cfg net library watched_tmdb_ids media_type (item # rest)
       suggested_items s =
     (case ProviderIds_Tmdb item of
        None \<Rightarrow>
          similar_loop py_int cfg net library watched_tmdb_ids media_type rest
            suggested_items s
      | Some tmdb_id \<Rightarrow>
          if tmdb_id = [] then
            similar_loop py_int cfg net library watched_tmdb_ids media_type rest
              suggested_items s
          else (case py_int tmdb_id of
                  None \<Rightarrow> (Inl ValueError, s)
                | Some k \<Rightarrow>
                    (case get_similar cfg net k media_type s of
                       (similar, s') \<Rightarrow>
                         similar_loop py_int cfg net library watched_tmdb_ids media_type rest
                           (add_similar library watched_tmdb_ids media_type similar
                              suggested_items) s')))"

text \<open>
  \<open>process_user\<close> from "Find similar content" to the end of the series loop: the working
  list \<open>suggested_items\<close> before it is sorted.
\<close>

definition find_similar_content ::
  "(string \<Rightarrow> int option) \<Rightarrow> config \<Rightarrow> 'w network \<Rightarrow> (int \<rightharpoonup> jf_item) \<Rightarrow> (int \<rightharpoonup> jf_item)
     \<Rightarrow> jf_item list \<Rightarrow> jf_item list \<Rightarrow> 'w state
     \<Rightarrow> (py_exn + suggestion list) \<times> 'w state" where
  "find_similar_content py_int cfg net movie_library series_library watched_movies
       unique_series s =
     (case collect_watched_ids py_int watched_movies {} of
        Inl e \<Rightarrow> (Inl e, s)
      | Inr movie_ids \<Rightarrow>
     (case collect_watched_ids py_int unique_series movie_ids of
        Inl e \<Rightarrow> (Inl e, s)
      | Inr watched_tmdb_ids \<Rightarrow>
     (case similar_loop py_int cfg net movie_library watched_tmdb_ids ''Movie''
             (py_slice_to (max_watched_items cfg) watched_movies) [] s of
        (Inl e, s1) \<Rightarrow> (Inl e, s1)
      | (Inr movie_suggestions, s1) \<Rightarrow>
          similar_loop py_int cfg net series_library watched_tmdb_ids ''Series''
            (py_slice_to (max_watched_items cfg) unique_series) movie_suggestions s1)))"

text \<open>"Sort by TMDB score and limit".\<close>

definition sort_and_limit :: "config \<Rightarrow> suggestion list \<Rightarrow> suggestion list" where
  "sort_and_limit cfg suggested_items =
     py_slice_to (max_playlist_items cfg) (py_sort_reverse Score suggested_items)"

text \<open>
  The suggestion aggregator: \<open>process_user\<close> from "Find similar content" to the
  truncation, for the watched movies and the resolved series of one user.
\<close>

definition suggest ::
  "(string \<Rightarrow> int option) \<Rightarrow> config \<Rightarrow> 'w network \<Rightarrow> (int \<rightharpoonup> jf_item) \<Rightarrow> (int \<rightharpoonup> jf_item)
     \<Rightarrow> jf_item list \<Rightarrow> jf_item list \<Rightarrow> 'w state
     \<Rightarrow> (py_exn + suggestion list) \<times> 'w state" where
  "suggest py_int cfg net movie_library series_library watched_movies unique_series s =
     (case find_similar_content py_int cfg net movie_library series_library watched_movies
             unique_series s of
        (Inl e, s') \<Rightarrow> (Inl e, s')
      | (Inr suggested_items, s') \<Rightarrow> (Inr (sort_and_limit cfg suggested_items), s'))"

text \<open>
  \<open>update_playlist\<close>. The results of \<open>clear_playlist\<close>, \<open>add_to_playlist\<close> and
  \<open>create_playlist\<close> are dropped; only an exception stops the method.
\<close>

definition update_playlist ::
  "config \<Rightarrow> 'w network \<Rightarrow> string \<Rightarrow> string \<Rightarrow> suggestion list \<Rightarrow> 'w state
     \<Rightarrow> (py_exn + unit) \<times> 'w state" where
  "update_playlist cfg net user_id user_name items s =
     (case get_user_playlists net user_id s of
        (Inl e, s1) \<Rightarrow> (Inl e, s1)
      | (Inr playlists, s1) \<Rightarrow>
          (let item_ids = map Id items in
           case find (\<lambda>p. item_Name p = playlist_name cfg) playlists of
             Some existing_playlist \<Rightarrow>
               (let playlist_id = item_Id existing_playlist in
                case get_playlist_items net playlist_id user_id s1 of
                  (Inl e, s2) \<Rightarrow> (Inl e, s2)
                | (Inr current_items, s2) \<Rightarrow>
                    (case (if current_items \<noteq> []
                           then clear_playlist net playlist_id
                                  (map PlaylistItemId current_items) s2
                           else (Inr True, s2)) of
                       (Inl e, s3) \<Rightarrow> (Inl e, s3)
                     | (Inr cleared, s3) \<Rightarrow>
                         (case add_to_playlist net playlist_id user_id item_ids s3 of
                            (Inl e, s4) \<Rightarrow> (Inl e, s4)
                          | (Inr added, s4) \<Rightarrow> (Inr (), s4))))
           | None \<Rightarrow>
               (case create_playlist net user_id (playlist_name cfg) item_ids s1 of
                  (Inl e, s2) \<Rightarrow> (Inl e, s2)
                | (Inr created, s2) \<Rightarrow> (Inr (), s2))))"

definition process_user ::
  "(string \<Rightarrow> int option) \<Rightarrow> config \<Rightarrow> 'w network \<Rightarrow> jf_item \<Rightarrow> (int \<rightharpoonup> jf_item)
     \<Rightarrow> (int \<rightharpoonup> jf_item) \<Rightarrow> 'w state \<Rightarrow> (py_exn + unit) \<times> 'w state" where
  "process_user py_int cfg net user movie_library series_library s =
     (let user_id = item_Id user; user_name = item_Name user in
      case get_watched_items cfg net user_id ''Movie'' s of
        (Inl e, s1) \<Rightarrow> (Inl e, s1)
      | (Inr watched_movies, s1) \<Rightarrow>
     (case get_watched_items cfg net user_id ''Episode'' s1 of
        (Inl e, s2) \<Rightarrow> (Inl e, s2)
      | (Inr watched_series, s2) \<Rightarrow>
     (case extract_unique_series net user_id watched_series {} [] s2 of
        (Inl e, s3) \<Rightarrow> (Inl e, s3)
      | (Inr unique_series, s3) \<Rightarrow>
     (case suggest py_int cfg net movie_library series_library watched_movies
             unique_series s3 of
        (Inl e, s4) \<Rightarrow> (Inl e, s4)
      | (Inr suggested_items, s4) \<Rightarrow>
          if suggested_items \<noteq> []
          then update_playlist cfg net user_id user_name suggested_items s4
          else (Inr (), s4)))))"

fun process_users ::
  "(string \<Rightarrow> int option) \<Rightarrow> config \<Rightarrow> 'w network \<Rightarrow> (int \<rightharpoonup> jf_item) \<Rightarrow> (int \<rightharpoonup> jf_item)
     \<Rightarrow> jf_item list \<Rightarrow> 'w state \<Rightarrow> (py_exn + unit) \<times> 'w state" where
  "process_users py_int cfg net movie_library series_library [] s = (Inr (), s)"
| "process_users py_int cfg net movie_library series_library (user # rest) s =
     (case process_user py_int cfg net user movie_library series_library s of
        (Inl e, s') \<Rightarrow> (Inl e, s')
      | (Inr done_user, s') \<Rightarrow>
          process_users py_int cfg net movie_library series_library rest s')"

definition run ::
  "(string \<Rightarrow> int option) \<Rightarrow> config \<Rightarrow> 'w network \<Rightarrow> 'w state \<Rightarrow> (py_exn + unit) \<times> 'w state" where
  "run py_int cfg net s =
     (case get_library_items py_int net ''Movie'' s of
        (Inl e, s1) \<Rightarrow> (Inl e, s1)
      | (Inr movie_library, s1) \<Rightarrow>
     (case get_library_items py_int net ''Series'' s1 of
        (Inl e, s2) \<Rightarrow> (Inl e, s2)
      | (Inr series_library, s2) \<Rightarrow>
     (case get_users net s2 of
        (Inl e, s3) \<Rightarrow> (Inl e, s3)
      | (Inr users, s3) \<Rightarrow>
          process_users py_int cfg net movie_library series_library users s3)))"

section \<open>main\<close>

text \<open>
  How the process ends: \<open>main\<close> returns, \<open>SystemExit(1)\<close> is raised for a \<open>ValueError\<close>,
  or another exception is raised again and leaves \<open>asyncio.run\<close>.
\<close>

datatype outcome = Completed | SystemExit nat | Uncaught py_exn

fun exit_status :: "outcome \<Rightarrow> nat" where
  "exit_status Completed = 0"
| "exit_status (SystemExit n) = n"
| "exit_status (Uncaught e) = 1"

definition main ::
  "(string \<Rightarrow> int option) \<Rightarrow> (string \<Rightarrow> rat option) \<Rightarrow> (string \<rightharpoonup> string) \<Rightarrow> 'w network
     \<Rightarrow> 'w \<Rightarrow> outcome \<times> 'w state" where
  "main py_int py_float env net w =
     (case from_env py_int py_float env of
        Inl ValueError \<Rightarrow> (SystemExit 1, (w, []))
      | Inl e \<Rightarrow> (Uncaught e, (w, []))
      | Inr cfg \<Rightarrow>
          (case run py_int cfg net (w, []) of
             (Inr finished, s) \<Rightarrow> (Completed, s)
           | (Inl ValueError, s) \<Rightarrow> (SystemExit 1, s)
           | (Inl e, s) \<Rightarrow> (Uncaught e, s)))"

section \<open>Notions used to state the properties\<close>

text \<open>The quality filter of \<open>get_similar\<close> and the dictionary it builds for an item.\<close>

definition passes_quality :: "config \<Rightarrow> tmdb_result \<Rightarrow> bool" where
  "passes_quality cfg item \<longleftrightarrow>
     min_tmdb_rating cfg \<le> vote_avg item \<and> min_tmdb_votes cfg \<le> vote_count item"

definition as_similar :: "tmdb_result \<Rightarrow> similar" where
  "as_similar item = \<lparr> similar_id = result_id item, similar_title = title_or_name item,
                        similar_vote_average = vote_avg item \<rparr>"

text \<open>
  The two orders of filtering and capping the provider's list. \<open>filter_then_cap\<close> follows
  the words of the specification (the cap is applied to the already-filtered list);
  \<open>cap_then_filter\<close> filters the first elements of the provider's list.
\<close>

definition filter_then_cap :: "config \<Rightarrow> tmdb_result list \<Rightarrow> similar list" where
  "filter_then_cap cfg body =
     py_slice_to (max_similar_per_item cfg) (map as_similar (filter (passes_quality cfg) body))"

definition cap_then_filter :: "config \<Rightarrow> tmdb_result list \<Rightarrow> similar list" where
  "cap_then_filter cfg body =
     map as_similar (filter (passes_quality cfg) (py_slice_to (max_similar_per_item cfg) body))"

text \<open>
  The catalog ID of a watched item, as the loops of \<open>process_user\<close> read it: none when
  \<open>ProviderIds.Tmdb\<close> is missing or empty. \<open>catalog_ids\<close> is the set of catalog IDs of a
  list of watched items.
\<close>

definition catalog_id :: "(string \<Rightarrow> int option) \<Rightarrow> jf_item \<Rightarrow> int option" where
  "catalog_id py_int item =
     (case ProviderIds_Tmdb item of
        None \<Rightarrow> None
      | Some tmdb_id \<Rightarrow> if tmdb_id = [] then None else py_int tmdb_id)"

definition catalog_ids :: "(string \<Rightarrow> int option) \<Rightarrow> jf_item list \<Rightarrow> int set" where
  "catalog_ids py_int items = set (List.map_filter (catalog_id py_int) items)"

text \<open>
  \<open>offered net media_type r\<close>: the provider answers some similar-query for that media
  type, in some state, with status 200 and a list that holds \<open>r\<close>.
  \<open>accepted cfg net library excluded media_type c\<close>: the suggestion \<open>c\<close> is the dictionary
  built for a result the provider offers, that passes the quality filter, whose catalog
  ID is not excluded and is a key of the library.
\<close>

definition offered :: "'w network \<Rightarrow> string \<Rightarrow> tmdb_result \<Rightarrow> bool" where
  "offered net media_type r \<longleftrightarrow>
     (\<exists>k w w' body.
        similar_ep net (GET_similar (if media_type = ''Movie'' then ''movie'' else ''tv'') k) w
          = (Reply 200 body, w')
        \<and> r \<in> set body)"

definition accepted ::
  "config \<Rightarrow> 'w network \<Rightarrow> (int \<rightharpoonup> jf_item) \<Rightarrow> int set \<Rightarrow> string \<Rightarrow> suggestion \<Rightarrow> bool" where
  "accepted cfg net library excluded media_type c \<longleftrightarrow>
     (\<exists>r item.
        offered net media_type r \<and> passes_quality cfg r \<and> result_id r \<notin> excluded
        \<and> library (result_id r) = Some item
        \<and> c = \<lparr> Id = item_Id item, Name = item_Name item, Type = media_type,
                 Score = vote_avg r \<rparr>)"

text \<open>No two catalog IDs of a library index lead to the same local identifier.\<close>

definition unique_local_ids :: "(int \<rightharpoonup> jf_item) \<Rightarrow> bool" where
  "unique_local_ids library \<longleftrightarrow>
     (\<forall>k k' item item'.
        library k = Some item \<and> library k' = Some item' \<and> item_Id item = item_Id item'
        \<longrightarrow> k = k')"

text \<open>
  The similar items one of the two outer loops receives, in the order it receives them:
  watched item after watched item as the loop meets them, and for one watched item in
  the order of \<open>get_similar\<close>'s result.
\<close>

fun received ::
  "(string \<Rightarrow> int option) \<Rightarrow> config \<Rightarrow> 'w network \<Rightarrow> string \<Rightarrow> jf_item list \<Rightarrow> 'w state
     \<Rightarrow> similar list" where
  "received py_int cfg net media_type [] s = []"
| "received py_int cfg net media_type (item # rest) s =
     (case ProviderIds_Tmdb item of
        None \<Rightarrow> received py_int cfg net media_type rest s
      | Some tmdb_id \<Rightarrow>
          if tmdb_id = [] then received py_int cfg net media_type rest s
          else (case py_int tmdb_id of
                  None \<Rightarrow> []
                | Some k \<Rightarrow>
                    (case get_similar cfg net k media_type s of
                       (similar, s') \<Rightarrow> similar @ received py_int cfg net media_type rest s')))"

section \<open>A small installation, for running the model\<close>

text \<open>
  One user, ``ann'', who has watched the movie with catalog ID 100. The provider's
  similar movies for 100 are the three results of the specification's example: ratings
  8, 5 and 7 with 200, 200 and 10 votes. The movie library holds catalog IDs 1 and 3.
  The server keeps the entries of one playlist, and answers the removal and the append
  of entries with the status codes held in its state; only a 204 changes the entries.
\<close>

definition sample_int :: "string \<Rightarrow> int option" where
  "sample_int = map_of [(''1'', 1), (''3'', 3), (''5'', 5), (''20'', 20), (''30'', 30),
                        (''50'', 50), (''100'', 100)]"

definition sample_float :: "string \<Rightarrow> rat option" where
  "sample_float = map_of [(''6.0'', 6), (''7.5'', 15 / 2)]"

definition sample_env :: "string \<rightharpoonup> string" where
  "sample_env = map_of [(''JELLYFIN_URL'', ''http://jellyfin:8096/''),
                        (''TMDB_API_KEY'', ''secret'')]"

definition sample_cfg :: config where
  "sample_cfg = \<lparr> jellyfin_url = ''http://jellyfin:8096'', jellyfin_api_key = ''key'',
                   tmdb_api_key = ''secret'', playlist_name = ''Suggested For You'',
                   max_watched_items = 20, max_similar_per_item = 5,
                   max_playlist_items = 50, min_tmdb_rating = 6, min_tmdb_votes = 50,
                   request_timeout = 30 \<rparr>"

definition jf :: "string \<Rightarrow> string \<Rightarrow> string option \<Rightarrow> jf_item" where
  "jf i n t = \<lparr> item_Id = i, item_Name = n, ProviderIds_Tmdb = t, SeriesId = None,
               PlaylistItemId = [] \<rparr>"

definition entry :: "string \<Rightarrow> string \<Rightarrow> jf_item" where
  "entry e i = \<lparr> item_Id = i, item_Name = [], ProviderIds_Tmdb = None, SeriesId = None,
                PlaylistItemId = e \<rparr>"

definition tmdb :: "int \<Rightarrow> rat \<Rightarrow> int \<Rightarrow> tmdb_result" where
  "tmdb k rating votes = \<lparr> result_id = k, result_title = Some ''t'', result_name = None,
                           result_vote_average = Some rating,
                           result_vote_count = Some votes \<rparr>"

definition ann :: jf_item where
  "ann = jf ''u1'' ''ann'' None"

definition sample_results :: "tmdb_result list" where
  "sample_results = [tmdb 1 8 200, tmdb 2 5 200, tmdb 3 7 10]"

definition sample_library :: "int \<rightharpoonup> jf_item" where
  "sample_library = [1 \<mapsto> jf ''A'' ''Alien'' (Some ''1''), 3 \<mapsto> jf ''C'' ''Cube'' (Some ''3'')]"

record server =
  entries :: "jf_item list"
  delete_status :: nat
  post_status :: nat

definition sample_server :: server where
  "sample_server = \<lparr> entries = [entry ''e1'' ''X'', entry ''e2'' ''Y'', entry ''e3'' ''Z''],
                      delete_status = 500, post_status = 204 \<rparr>"

definition sample_net :: "server network" where
  "sample_net =
     \<lparr> users_ep = (\<lambda>rq w. (Reply 200 [ann], w)),
       items_ep = (\<lambda>rq w.
          case rq of
            GET_Items_watched u t l \<Rightarrow>
              (Reply 200 (if t = ''Movie'' then [jf ''M'' ''Moon'' (Some ''100'')] else []), w)
          | GET_Items_library t \<Rightarrow>
              (Reply 200 (if t = ''Movie''
                          then [jf ''A'' ''Alien'' (Some ''1''), jf ''C'' ''Cube'' (Some ''3'')]
                          else []), w)
          | GET_Items_playlists u \<Rightarrow> (Reply 200 [jf ''P'' ''Suggested For You'' None], w)
          | GET_Playlist_Items p u \<Rightarrow> (Reply 200 (entries w), w)
          | _ \<Rightarrow> (Reply 404 [], w)),
       item_ep = (\<lambda>rq w. (Reply 404 (jf [] [] None), w)),
       create_ep = (\<lambda>rq w. (Reply 200 (Some ''P''), w)),
       write_ep = (\<lambda>rq w.
          case rq of
            DELETE_Playlist_Items p ids \<Rightarrow>
              (Reply (delete_status w) (),
               if delete_status w = 204
               then w\<lparr>entries := filter (\<lambda>e. PlaylistItemId e \<notin> set ids) (entries w)\<rparr>
               else w)
          | POST_Playlist_Items p u ids \<Rightarrow>
              (Reply (post_status w) (),
               if post_status w = 204
               then w\<lparr>entries := entries w @ map (\<lambda>i. entry (''e-'' @ i) i) ids\<rparr>
               else w)
          | _ \<Rightarrow> (Reply 404 (), w)),
       similar_ep = (\<lambda>rq w.
          case rq of
            GET_similar e k \<Rightarrow> (if k = 100 then Reply 200 sample_results else Reply 404 [], w)
          | _ \<Rightarrow> (Reply 404 [], w)) \<rparr>"

text \<open>A user without any watch history.\<close>

definition idle_net :: "server network" where
  "idle_net = sample_net\<lparr>items_ep := (\<lambda>rq w. (Reply 200 [], w))\<rparr>"

text \<open>
  A provider list whose first element is rated too low, with a cap of one result per
  watched item.
\<close>

definition crowded_results :: "tmdb_result list" where
  "crowded_results = [tmdb 2 5 200, tmdb 1 8 200]"

definition crowded_net :: "server network" where
  "crowded_net = sample_net\<lparr>similar_ep := (\<lambda>rq w. (Reply 200 crowded_results, w))\<rparr>"

definition cap1_cfg :: config where
  "cap1_cfg = sample_cfg\<lparr>max_similar_per_item := 1\<rparr>"

text \<open>
  The watched movie of the installation, a configuration that lets the third sample
  result pass the vote threshold, and one with a negative playlist size.
\<close>

definition moon :: jf_item where
  "moon = jf ''M'' ''Moon'' (Some ''100'')"

definition lenient_cfg :: config where
  "lenient_cfg = sample_cfg\<lparr>min_tmdb_votes := 5\<rparr>"

definition negative_cfg :: config where
  "negative_cfg = lenient_cfg\<lparr>max_playlist_items := - 1\<rparr>"

text \<open>The suggestions the installation leads to.\<close>

definition alien :: suggestion where
  "alien = \<lparr> Id = ''A'', Name = ''Alien'', Type = ''Movie'', Score = 8 \<rparr>"

definition cube :: suggestion where
  "cube = \<lparr> Id = ''C'', Name = ''Cube'', Type = ''Movie'', Score = 7 \<rparr>"

text \<open>
  A provider list with two results of equal rating around a better one, a library that
  holds all three, and a configuration whose playlist holds one item.
\<close>

definition tie_results :: "tmdb_result list" where
  "tie_results = [tmdb 3 7 200, tmdb 1 8 200, tmdb 4 7 200]"

definition tie_net :: "server network" where
  "tie_net = sample_net\<lparr>similar_ep := (\<lambda>rq w. (Reply 200 tie_results, w))\<rparr>"

definition tie_library :: "int \<rightharpoonup> jf_item" where
  "tie_library = sample_library(4 \<mapsto> jf ''D'' ''Dune'' (Some ''4''))"

definition dune :: suggestion where
  "dune = \<lparr> Id = ''D'', Name = ''Dune'', Type = ''Movie'', Score = 7 \<rparr>"

definition single_cfg :: config where
  "single_cfg = lenient_cfg\<lparr>max_playlist_items := 1\<rparr>"

text \<open>A watched item without a catalog ID.\<close>

definition home_video :: jf_item where
  "home_video = jf ''H'' ''Holiday 2019'' None"

section \<open>Slices and the sort\<close>

lemma length_py_slice_to: "0 \<le> n \<Longrightarrow> int (length (py_slice_to n xs)) \<le> n"
  by (simp add: py_slice_to_def)

lemma py_slice_to_Nil: "py_slice_to n [] = []"
  by (simp add: py_slice_to_def)

lemma set_py_slice_to: "set (py_slice_to n xs) \<subseteq> set xs"
  by (auto simp: py_slice_to_def dest: in_set_takeD)

lemma prefix_py_slice_to: "prefix (py_slice_to n xs) xs"
  by (simp add: py_slice_to_def take_is_prefix)

lemma distinct_map_py_slice_to:
  "distinct (map f xs) \<Longrightarrow> distinct (map f (py_slice_to n xs))"
  by (simp add: py_slice_to_def flip: take_map)

lemma sorted_wrt_py_slice_to:
  "sorted_wrt R xs \<Longrightarrow> sorted_wrt R (py_slice_to n xs)"
  by (simp add: py_slice_to_def)

lemma filter_py_slice_to_prefix: "prefix (filter P (py_slice_to n xs)) (filter P xs)"
  by (simp add: prefix_py_slice_to filter_mono_prefix)

lemma sorted_py_sort_reverse: "sorted_wrt (\<lambda>a b. key b \<le> key a) (py_sort_reverse key xs)"
proof -
  have "sorted (map key (sort_key key (rev xs)))" by simp
  then have "sorted_wrt (\<lambda>a b. key a \<le> key b) (sort_key key (rev xs))"
    by (simp only: sorted_map)
  then show ?thesis
    by (simp add: py_sort_reverse_def sorted_wrt_rev)
qed

lemma py_sort_reverse_stable:
  "filter (\<lambda>y. key y = k) (py_sort_reverse key xs) = filter (\<lambda>y. key y = k) xs"
  by (simp add: py_sort_reverse_def sort_key_stable flip: rev_filter)

lemma set_py_sort_reverse: "set (py_sort_reverse key xs) = set xs"
  by (simp add: py_sort_reverse_def)

lemma distinct_map_py_sort_reverse:
  "distinct (map f (py_sort_reverse key xs)) = distinct (map f xs)"
  by (simp add: py_sort_reverse_def distinct_map)

section \<open>The recommendation client\<close>

lemma similar_results_eq:
  "similar_results cfg items results
     = results @ map as_similar (filter (passes_quality cfg) items)"
  by (induction items arbitrary: results) (simp_all add: passes_quality_def as_similar_def)

text \<open>
  C1, as the claim states it, fails: the claim has the quality filter run over the
  provider's whole list and the cap cut the filtered list. With a cap of 1 and the
  provider's list \<open>[rating 5, rating 8]\<close>, \<open>get_similar\<close> returns nothing, where the
  filtered list capped at 1 holds the second result.
\<close>

theorem get_similar_filter_first_counterexample:
  "send (similar_ep crowded_net) (GET_similar ''movie'' 100) (sample_server, [])
     = (Reply 200 crowded_results, (sample_server, [GET_similar ''movie'' 100]))
   \<and> fst (get_similar cap1_cfg crowded_net 100 ''Movie'' (sample_server, [])) = []
   \<and> filter_then_cap cap1_cfg crowded_results = [as_similar (tmdb 1 8 200)]
   \<and> fst (get_similar cap1_cfg crowded_net 100 ''Movie'' (sample_server, []))
       \<noteq> filter_then_cap cap1_cfg crowded_results"
  by (simp add: get_similar_def send_def crowded_net_def sample_net_def cap1_cfg_def
      sample_cfg_def crowded_results_def tmdb_def py_slice_to_def filter_then_cap_def
      passes_quality_def vote_avg_def vote_count_def)

text \<open>
  C1, amended: for a successful provider response, \<open>get_similar\<close> cuts the provider's
  list to \<open>max_similar_per_item\<close> elements first and applies the rating and vote-count
  filter to that prefix, in the provider's order; it sends one request.
\<close>

theorem get_similar_caps_then_filters:
  assumes "send (similar_ep net)
             (GET_similar (if media_type = ''Movie'' then ''movie'' else ''tv'') tmdb_id) s
           = (Reply 200 body, s')"
  shows "get_similar cfg net tmdb_id media_type s = (cap_then_filter cfg body, s')"
  using assms by (simp add: get_similar_def cap_then_filter_def similar_results_eq)

theorem get_similar_caps_then_filters_witness:
  "send (similar_ep crowded_net)
     (GET_similar (if ''Movie'' = ''Movie'' then ''movie'' else ''tv'') 100) (sample_server, [])
     = (Reply 200 crowded_results, (sample_server, [GET_similar ''movie'' 100]))
   \<and> get_similar cap1_cfg crowded_net 100 ''Movie'' (sample_server, [])
       = ([], (sample_server, [GET_similar ''movie'' 100]))"
proof -
  have h: "send (similar_ep crowded_net)
             (GET_similar (if ''Movie'' = ''Movie'' then ''movie'' else ''tv'') 100)
             (sample_server, [])
           = (Reply 200 crowded_results, (sample_server, [GET_similar ''movie'' 100]))"
    by (simp add: send_def crowded_net_def sample_net_def)
  have e: "cap_then_filter cap1_cfg crowded_results = []"
    by (simp add: cap_then_filter_def cap1_cfg_def sample_cfg_def crowded_results_def
        tmdb_def py_slice_to_def passes_quality_def vote_avg_def vote_count_def)
  from get_similar_caps_then_filters [OF h, of cap1_cfg] e h show ?thesis
    by simp
qed

section \<open>The loops of the aggregator\<close>

lemma collect_watched_ids_eq:
  "collect_watched_ids py_int items W = Inr W' \<Longrightarrow> W' = W \<union> catalog_ids py_int items"
proof (induction items arbitrary: W)
  case Nil
  then show ?case by (simp add: catalog_ids_def)
next
  case (Cons item items)
  show ?case
  proof (cases "catalog_id py_int item")
    case None
    with Cons.prems have "collect_watched_ids py_int items W = Inr W'"
      by (simp add: catalog_id_def split: option.splits if_splits)
    from Cons.IH [OF this] None show ?thesis
      by (simp add: catalog_ids_def)
  next
    case (Some k)
    with Cons.prems have "collect_watched_ids py_int items (insert k W) = Inr W'"
      by (simp add: catalog_id_def split: option.splits if_splits)
    from Cons.IH [OF this] Some show ?thesis
      by (simp add: catalog_ids_def)
  qed
qed

lemma add_similar_Cons_cases:
  obtains (skip) "add_similar lib W ty (s # rest) acc = add_similar lib W ty rest acc"
  | (add) item where "lib (similar_id s) = Some item" "similar_id s \<notin> W"
      "item_Id item \<notin> set (map Id acc)"
      "add_similar lib W ty (s # rest) acc =
         add_similar lib W ty rest
           (acc @ [\<lparr> Id = item_Id item, Name = item_Name item, Type = ty,
                      Score = similar_vote_average s \<rparr>])"
proof (cases "lib (similar_id s)")
  case None
  then have "add_similar lib W ty (s # rest) acc = add_similar lib W ty rest acc" by simp
  then show ?thesis by (rule skip)
next
  case (Some item)
  show ?thesis
  proof (cases "similar_id s \<notin> W \<and> item_Id item \<notin> set (map Id acc)")
    case True
    with Some have "add_similar lib W ty (s # rest) acc =
         add_similar lib W ty rest
           (acc @ [\<lparr> Id = item_Id item, Name = item_Name item, Type = ty,
                      Score = similar_vote_average s \<rparr>])"
      by simp
    with Some True show ?thesis by (intro add) simp_all
  next
    case False
    with Some have "add_similar lib W ty (s # rest) acc = add_similar lib W ty rest acc"
      by auto
    then show ?thesis by (rule skip)
  qed
qed


lemma add_similar_mem:
  "c \<in> set (add_similar lib W ty sims acc) \<Longrightarrow>
     c \<in> set acc \<or>
     (\<exists>s\<in>set sims. \<exists>item. lib (similar_id s) = Some item \<and> similar_id s \<notin> W
        \<and> c = \<lparr> Id = item_Id item, Name = item_Name item, Type = ty,
                 Score = similar_vote_average s \<rparr>)"
proof (induction sims arbitrary: acc)
  case Nil
  then show ?case by simp
next
  case (Cons s sims)
  show ?case
  proof (cases rule: add_similar_Cons_cases [of lib W ty s sims acc])
    case skip
    with Cons.prems have "c \<in> set (add_similar lib W ty sims acc)" by simp
    from Cons.IH [OF this] show ?thesis by auto
  next
    case (add item)
    with Cons.prems have "c \<in> set (add_similar lib W ty sims
           (acc @ [\<lparr> Id = item_Id item, Name = item_Name item, Type = ty,
                      Score = similar_vote_average s \<rparr>]))" by simp
    from Cons.IH [OF this] add(1,2) show ?thesis by auto
  qed
qed

lemma add_similar_append:
  "\<exists>new. add_similar lib W ty sims acc = acc @ new \<and> (\<forall>c\<in>set new. Type c = ty)"
proof (induction sims arbitrary: acc)
  case Nil
  then show ?case by simp
next
  case (Cons s sims)
  show ?case
  proof (cases rule: add_similar_Cons_cases [of lib W ty s sims acc])
    case skip
    with Cons.IH [of acc] show ?thesis by simp
  next
    case (add item)
    let ?c = "\<lparr> Id = item_Id item, Name = item_Name item, Type = ty,
                Score = similar_vote_average s \<rparr>"
    from Cons.IH [of "acc @ [?c]"] obtain new where
      new: "add_similar lib W ty sims (acc @ [?c]) = (acc @ [?c]) @ new"
      "\<forall>c\<in>set new. Type c = ty"
      by blast
    from add(4) new(1) have "add_similar lib W ty (s # sims) acc = acc @ (?c # new)"
      by simp
    moreover from new(2) have "\<forall>x\<in>set (?c # new). Type x = ty" by simp
    ultimately show ?thesis by blast
  qed
qed

lemma add_similar_distinct:
  "distinct (map Id acc) \<Longrightarrow> distinct (map Id (add_similar lib W ty sims acc))"
proof (induction sims arbitrary: acc)
  case Nil
  then show ?case by simp
next
  case (Cons s sims)
  show ?case
  proof (cases rule: add_similar_Cons_cases [of lib W ty s sims acc])
    case skip
    with Cons.IH [OF Cons.prems] show ?thesis by simp
  next
    case (add item)
    let ?c = "\<lparr> Id = item_Id item, Name = item_Name item, Type = ty,
                Score = similar_vote_average s \<rparr>"
    from Cons.prems add(3) have "distinct (map Id (acc @ [?c]))" by simp
    from Cons.IH [OF this] add(4) show ?thesis by simp
  qed
qed

lemma similar_loop_Cons_cases:
  obtains (skip) "catalog_id py_int item = None"
      "\<And>acc s. similar_loop py_int cfg net lib W ty (item # rest) acc s = (Inl ValueError, s)
         \<or> similar_loop py_int cfg net lib W ty (item # rest) acc s
             = similar_loop py_int cfg net lib W ty rest acc s"
  | (query) k where "catalog_id py_int item = Some k"
      "\<And>acc s. similar_loop py_int cfg net lib W ty (item # rest) acc s
         = similar_loop py_int cfg net lib W ty rest
             (add_similar lib W ty (fst (get_similar cfg net k ty s)) acc)
             (snd (get_similar cfg net k ty s))"
proof (cases "catalog_id py_int item")
  case None
  then have "\<And>acc s. similar_loop py_int cfg net lib W ty (item # rest) acc s = (Inl ValueError, s)
         \<or> similar_loop py_int cfg net lib W ty (item # rest) acc s
             = similar_loop py_int cfg net lib W ty rest acc s"
    by (simp add: catalog_id_def split: option.splits if_splits)
  with None show ?thesis by (rule skip)
next
  case (Some k)
  then have "\<And>acc s. similar_loop py_int cfg net lib W ty (item # rest) acc s
         = similar_loop py_int cfg net lib W ty rest
             (add_similar lib W ty (fst (get_similar cfg net k ty s)) acc)
             (snd (get_similar cfg net k ty s))"
    by (auto simp add: catalog_id_def split_beta split: option.splits if_splits)
  with Some show ?thesis by (rule query)
qed

lemma similar_loop_invariant:
  assumes "similar_loop py_int cfg net lib W ty items acc s = (Inr out, s')"
    and "P acc"
    and "\<And>k st acc'. P acc' \<Longrightarrow>
           P (add_similar lib W ty (fst (get_similar cfg net k ty st)) acc')"
  shows "P out"
  using assms(1,2)
proof (induction items arbitrary: acc s)
  case Nil
  then show ?case by simp
next
  case (Cons item items)
  show ?case
  proof (cases rule: similar_loop_Cons_cases [of py_int item cfg net lib W ty items])
    case skip
    from skip(2) [of acc s] Cons.prems(1)
    have "similar_loop py_int cfg net lib W ty items acc s = (Inr out, s')" by auto
    from Cons.IH [OF this Cons.prems(2)] show ?thesis .
  next
    case (query k)
    from query(2) [of acc s] Cons.prems(1)
    have "similar_loop py_int cfg net lib W ty items
             (add_similar lib W ty (fst (get_similar cfg net k ty s)) acc)
             (snd (get_similar cfg net k ty s)) = (Inr out, s')" by simp
    moreover have "P (add_similar lib W ty (fst (get_similar cfg net k ty s)) acc)"
      using assms(3) [OF Cons.prems(2)] .
    ultimately show ?thesis by (rule Cons.IH)
  qed
qed




lemma get_similar_mem:
  assumes "x \<in> set (fst (get_similar cfg net k ty st))"
  shows "\<exists>r. offered net ty r \<and> passes_quality cfg r \<and> x = as_similar r"
proof -
  let ?rq = "GET_similar (if ty = ''Movie'' then ''movie'' else ''tv'') k"
  obtain rep w' where ep: "similar_ep net ?rq (fst st) = (rep, w')"
    by (cases "similar_ep net ?rq (fst st)")
  show ?thesis
  proof (cases rep)
    case Fault
    with ep assms show ?thesis by (simp add: get_similar_def send_def)
  next
    case (Reply status body)
    show ?thesis
    proof (cases "status = 200")
      case False
      with ep Reply assms show ?thesis by (simp add: get_similar_def send_def)
    next
      case True
      with ep Reply assms have "x \<in> set (cap_then_filter cfg body)"
        by (simp add: get_similar_def send_def cap_then_filter_def similar_results_eq)
      then have "x \<in> as_similar ` {r \<in> set (py_slice_to (max_similar_per_item cfg) body).
                                     passes_quality cfg r}"
        by (simp add: cap_then_filter_def)
      then obtain r where r0: "x = as_similar r"
        "r \<in> {r \<in> set (py_slice_to (max_similar_per_item cfg) body). passes_quality cfg r}"
        by (rule imageE)
      then have r: "r \<in> set (py_slice_to (max_similar_per_item cfg) body)"
        "passes_quality cfg r" "x = as_similar r"
        by simp_all
      from r(1) set_py_slice_to [of "max_similar_per_item cfg" body]
      have "r \<in> set body" by (rule subsetD [rotated])
      with ep Reply True have "offered net ty r"
        unfolding offered_def by (intro exI [of _ k] exI [of _ "fst st"] exI [of _ w']
            exI [of _ body]) simp
      with r(2,3) show ?thesis by (intro exI [of _ r]) simp
    qed
  qed
qed


lemma add_similar_accepted:
  assumes "c \<in> set (add_similar lib W ty (fst (get_similar cfg net k ty st)) acc)"
  shows "c \<in> set acc \<or> accepted cfg net lib W ty c"
proof (cases "c \<in> set acc")
  case True
  then show ?thesis ..
next
  case False
  with add_similar_mem [OF assms] obtain x where x: "x \<in> set (fst (get_similar cfg net k ty st))"
    and ex: "\<exists>item. lib (similar_id x) = Some item \<and> similar_id x \<notin> W
        \<and> c = \<lparr> Id = item_Id item, Name = item_Name item, Type = ty,
                 Score = similar_vote_average x \<rparr>"
    by (elim disjE bexE) simp_all
  from ex obtain item where item: "lib (similar_id x) = Some item" "similar_id x \<notin> W"
      "c = \<lparr> Id = item_Id item, Name = item_Name item, Type = ty,
             Score = similar_vote_average x \<rparr>"
    by (elim exE conjE)
  from get_similar_mem [OF x] obtain r where
    r: "offered net ty r" "passes_quality cfg r" "x = as_similar r"
    by (elim exE conjE)
  from r(3) have "similar_id x = result_id r" "similar_vote_average x = vote_avg r"
    by (simp_all add: as_similar_def)
  with item have "lib (result_id r) = Some item" "result_id r \<notin> W"
      "c = \<lparr> Id = item_Id item, Name = item_Name item, Type = ty, Score = vote_avg r \<rparr>"
    by simp_all
  with r(1,2) have "accepted cfg net lib W ty c"
    unfolding accepted_def by (intro exI [of _ r] exI [of _ item]) simp
  then show ?thesis ..
qed


lemma similar_loop_accepted:
  assumes "similar_loop py_int cfg net lib W ty items acc s = (Inr out, s')"
  shows "\<forall>c\<in>set out. c \<in> set acc \<or> accepted cfg net lib W ty c"
proof (rule similar_loop_invariant
    [where P = "\<lambda>xs. \<forall>c\<in>set xs. c \<in> set acc \<or> accepted cfg net lib W ty c", OF assms])
  show "\<forall>c\<in>set acc. c \<in> set acc \<or> accepted cfg net lib W ty c" by simp
next
  fix k st acc'
  assume h: "\<forall>c\<in>set acc'. c \<in> set acc \<or> accepted cfg net lib W ty c"
  show "\<forall>c\<in>set (add_similar lib W ty (fst (get_similar cfg net k ty st)) acc').
          c \<in> set acc \<or> accepted cfg net lib W ty c"
  proof
    fix c
    assume "c \<in> set (add_similar lib W ty (fst (get_similar cfg net k ty st)) acc')"
    from add_similar_accepted [OF this]
    have "c \<in> set acc' \<or> accepted cfg net lib W ty c" .
    then show "c \<in> set acc \<or> accepted cfg net lib W ty c"
    proof
      assume "c \<in> set acc'"
      with h show ?thesis by (rule bspec)
    next
      assume "accepted cfg net lib W ty c"
      then show ?thesis ..
    qed
  qed
qed

lemma similar_loop_distinct:
  assumes "similar_loop py_int cfg net lib W ty items acc s = (Inr out, s')"
    and "distinct (map Id acc)"
  shows "distinct (map Id out)"
  by (rule similar_loop_invariant [where P = "\<lambda>xs. distinct (map Id xs)", OF assms])
     (rule add_similar_distinct)

lemma similar_loop_append:
  assumes "similar_loop py_int cfg net lib W ty items acc s = (Inr out, s')"
  shows "\<exists>new. out = acc @ new \<and> (\<forall>c\<in>set new. Type c = ty)"
proof (rule similar_loop_invariant
    [where P = "\<lambda>xs. \<exists>new. xs = acc @ new \<and> (\<forall>c\<in>set new. Type c = ty)", OF assms])
  show "\<exists>new. acc = acc @ new \<and> (\<forall>c\<in>set new. Type c = ty)" by simp
next
  fix k st acc'
  assume "\<exists>new. acc' = acc @ new \<and> (\<forall>c\<in>set new. Type c = ty)"
  then obtain new where new: "acc' = acc @ new" "\<forall>c\<in>set new. Type c = ty"
    by (elim exE conjE)
  from add_similar_append [of lib W ty "fst (get_similar cfg net k ty st)" acc']
  obtain more where more:
    "add_similar lib W ty (fst (get_similar cfg net k ty st)) acc' = acc' @ more"
    "\<forall>c\<in>set more. Type c = ty"
    by (elim exE conjE)
  from new more have
    "add_similar lib W ty (fst (get_similar cfg net k ty st)) acc' = acc @ (new @ more)
     \<and> (\<forall>c\<in>set (new @ more). Type c = ty)" by (simp add: ball_Un)
  then show "\<exists>new. add_similar lib W ty (fst (get_similar cfg net k ty st)) acc' = acc @ new
                \<and> (\<forall>c\<in>set new. Type c = ty)" by (rule exI)
qed

section \<open>The order of insertion\<close>

lemma add_similar_app:
  "add_similar lib W ty (xs @ ys) acc = add_similar lib W ty ys (add_similar lib W ty xs acc)"
  by (induction xs arbitrary: acc) simp_all

lemma similar_loop_received:
  "similar_loop py_int cfg net lib W ty items acc s = (Inr out, s')
     \<Longrightarrow> out = add_similar lib W ty (received py_int cfg net ty items s) acc"
proof (induction items arbitrary: acc s)
  case Nil
  then show ?case by simp
next
  case (Cons item items)
  show ?case
  proof (cases "ProviderIds_Tmdb item")
    case None
    with Cons.prems have "similar_loop py_int cfg net lib W ty items acc s = (Inr out, s')"
      by simp
    from Cons.IH [OF this] None show ?thesis by simp
  next
    case (Some tmdb_id)
    show ?thesis
    proof (cases "tmdb_id = []")
      case True
      with Some Cons.prems
      have "similar_loop py_int cfg net lib W ty items acc s = (Inr out, s')"
        by simp
      from Cons.IH [OF this] Some True show ?thesis by simp
    next
      case False
      show ?thesis
      proof (cases "py_int tmdb_id")
        case None
        with Some False Cons.prems show ?thesis by simp
      next
        case (Some k)
        obtain similar s1 where g: "get_similar cfg net k ty s = (similar, s1)"
          by (cases "get_similar cfg net k ty s")
        with \<open>ProviderIds_Tmdb item = Some tmdb_id\<close> False Some Cons.prems
        have "similar_loop py_int cfg net lib W ty items
                (add_similar lib W ty similar acc) s1 = (Inr out, s')"
          by simp
        from Cons.IH [OF this] \<open>ProviderIds_Tmdb item = Some tmdb_id\<close> False Some g
        show ?thesis by (simp add: add_similar_app)
      qed
    qed
  qed
qed

section \<open>The working list and the aggregator\<close>

lemma catalog_ids_append:
  "catalog_ids py_int (xs @ ys) = catalog_ids py_int xs \<union> catalog_ids py_int ys"
  by (simp add: catalog_ids_def List.map_filter_def)

lemma find_similar_content_cases:
  assumes "find_similar_content py_int cfg net ml sl wm us s = (Inr working, s')"
  obtains ms s1 where
    "similar_loop py_int cfg net ml (catalog_ids py_int (wm @ us)) ''Movie''
       (py_slice_to (max_watched_items cfg) wm) [] s = (Inr ms, s1)"
    "similar_loop py_int cfg net sl (catalog_ids py_int (wm @ us)) ''Series''
       (py_slice_to (max_watched_items cfg) us) ms s1 = (Inr working, s')"
proof -
  obtain W1 where W1: "collect_watched_ids py_int wm {} = Inr W1"
    using assms by (cases "collect_watched_ids py_int wm {}")
      (simp_all add: find_similar_content_def)
  obtain W where W: "collect_watched_ids py_int us W1 = Inr W"
    using assms W1 by (cases "collect_watched_ids py_int us W1")
      (simp_all add: find_similar_content_def)
  from collect_watched_ids_eq [OF W1] collect_watched_ids_eq [OF W]
  have Weq: "W = catalog_ids py_int (wm @ us)"
    by (simp add: catalog_ids_append)
  obtain r1 s1 where l1: "similar_loop py_int cfg net ml W ''Movie''
       (py_slice_to (max_watched_items cfg) wm) [] s = (r1, s1)"
    by (cases "similar_loop py_int cfg net ml W ''Movie''
       (py_slice_to (max_watched_items cfg) wm) [] s")
  obtain ms where ms: "r1 = Inr ms"
    using assms W1 W l1 by (cases r1) (simp_all add: find_similar_content_def)
  from assms W1 W l1 ms have "similar_loop py_int cfg net sl W ''Series''
       (py_slice_to (max_watched_items cfg) us) ms s1 = (Inr working, s')"
    by (simp add: find_similar_content_def)
  with l1 ms Weq show ?thesis by (intro that) simp_all
qed

lemma suggest_cases:
  assumes "suggest py_int cfg net ml sl wm us s = (Inr out, s')"
  obtains working where
    "find_similar_content py_int cfg net ml sl wm us s = (Inr working, s')"
    "out = sort_and_limit cfg working"
proof -
  obtain r s1 where f: "find_similar_content py_int cfg net ml sl wm us s = (r, s1)"
    by (cases "find_similar_content py_int cfg net ml sl wm us s")
  obtain working where w: "r = Inr working"
    using assms f by (cases r) (simp_all add: suggest_def)
  from assms f w have "s1 = s'" "out = sort_and_limit cfg working"
    by (simp_all add: suggest_def)
  with f w show ?thesis by (intro that) simp_all
qed

lemma set_sort_and_limit: "set (sort_and_limit cfg xs) \<subseteq> set xs"
  using set_py_slice_to [of "max_playlist_items cfg" "py_sort_reverse Score xs"]
  by (simp add: sort_and_limit_def set_py_sort_reverse)

lemma working_accepted:
  assumes "find_similar_content py_int cfg net ml sl wm us s = (Inr working, s')"
    and "c \<in> set working"
  shows "accepted cfg net ml (catalog_ids py_int (wm @ us)) ''Movie'' c
       \<or> accepted cfg net sl (catalog_ids py_int (wm @ us)) ''Series'' c"
proof -
  from assms(1) obtain ms s1 where
    l1: "similar_loop py_int cfg net ml (catalog_ids py_int (wm @ us)) ''Movie''
       (py_slice_to (max_watched_items cfg) wm) [] s = (Inr ms, s1)"
    and l2: "similar_loop py_int cfg net sl (catalog_ids py_int (wm @ us)) ''Series''
       (py_slice_to (max_watched_items cfg) us) ms s1 = (Inr working, s')"
    by (rule find_similar_content_cases)
  from similar_loop_accepted [OF l2] assms(2)
  have "c \<in> set ms \<or> accepted cfg net sl (catalog_ids py_int (wm @ us)) ''Series'' c"
    by (rule bspec)
  then show ?thesis
  proof
    assume "c \<in> set ms"
    with similar_loop_accepted [OF l1]
    have "c \<in> set [] \<or> accepted cfg net ml (catalog_ids py_int (wm @ us)) ''Movie'' c"
      by (rule bspec)
    then show ?thesis by simp
  next
    assume "accepted cfg net sl (catalog_ids py_int (wm @ us)) ''Series'' c"
    then show ?thesis ..
  qed
qed

lemma working_distinct:
  assumes "find_similar_content py_int cfg net ml sl wm us s = (Inr working, s')"
  shows "distinct (map Id working)"
proof -
  from assms obtain ms s1 where
    l1: "similar_loop py_int cfg net ml (catalog_ids py_int (wm @ us)) ''Movie''
       (py_slice_to (max_watched_items cfg) wm) [] s = (Inr ms, s1)"
    and l2: "similar_loop py_int cfg net sl (catalog_ids py_int (wm @ us)) ''Series''
       (py_slice_to (max_watched_items cfg) us) ms s1 = (Inr working, s')"
    by (rule find_similar_content_cases)
  from similar_loop_distinct [OF l1] have "distinct (map Id ms)" by simp
  with l2 show ?thesis by (rule similar_loop_distinct)
qed

lemma working_movies_then_series:
  assumes "find_similar_content py_int cfg net ml sl wm us s = (Inr working, s')"
  shows "\<exists>movies series. working = movies @ series
           \<and> (\<forall>c\<in>set movies. Type c = ''Movie'') \<and> (\<forall>c\<in>set series. Type c = ''Series'')"
proof -
  from assms obtain ms s1 where
    l1: "similar_loop py_int cfg net ml (catalog_ids py_int (wm @ us)) ''Movie''
       (py_slice_to (max_watched_items cfg) wm) [] s = (Inr ms, s1)"
    and l2: "similar_loop py_int cfg net sl (catalog_ids py_int (wm @ us)) ''Series''
       (py_slice_to (max_watched_items cfg) us) ms s1 = (Inr working, s')"
    by (rule find_similar_content_cases)
  from similar_loop_append [OF l1] have m: "\<forall>c\<in>set ms. Type c = ''Movie''" by simp
  from similar_loop_append [OF l2] obtain series where
    "working = ms @ series" "\<forall>c\<in>set series. Type c = ''Series''"
    by (elim exE conjE)
  with m have "working = ms @ series
           \<and> (\<forall>c\<in>set ms. Type c = ''Movie'') \<and> (\<forall>c\<in>set series. Type c = ''Series'')"
    by simp
  then show ?thesis by (intro exI)
qed

section \<open>The installation, evaluated\<close>

lemma sample_get_similar:
  "get_similar sample_cfg sample_net 100 ''Movie'' (sample_server, [])
     = ([as_similar (tmdb 1 8 200)], (sample_server, [GET_similar ''movie'' 100]))"
  by (simp add: get_similar_def send_def sample_net_def sample_results_def sample_cfg_def
      tmdb_def py_slice_to_def vote_avg_def vote_count_def as_similar_def)

lemma negative_get_similar:
  "get_similar negative_cfg sample_net 100 ''Movie'' (sample_server, [])
     = ([as_similar (tmdb 1 8 200), as_similar (tmdb 3 7 10)],
        (sample_server, [GET_similar ''movie'' 100]))"
  by (simp add: get_similar_def send_def sample_net_def sample_results_def sample_cfg_def
      lenient_cfg_def negative_cfg_def tmdb_def py_slice_to_def vote_avg_def vote_count_def
      as_similar_def)

lemma sample_limits:
  "max_watched_items sample_cfg = 20" "max_playlist_items sample_cfg = 50"
  "max_watched_items lenient_cfg = 20" "max_playlist_items lenient_cfg = 50"
  "max_watched_items negative_cfg = 20" "max_playlist_items negative_cfg = - 1"
  "max_watched_items single_cfg = 20" "max_playlist_items single_cfg = 1"
  by (simp_all add: sample_cfg_def lenient_cfg_def negative_cfg_def single_cfg_def)

lemma sample_working:
  "find_similar_content sample_int sample_cfg sample_net sample_library Map.empty [moon] []
     (sample_server, [])
   = (Inr [alien], (sample_server, [GET_similar ''movie'' 100]))"
  by (simp add: find_similar_content_def moon_def jf_def sample_int_def py_slice_to_def
      sample_limits sample_get_similar as_similar_def tmdb_def vote_avg_def
      sample_library_def alien_def)

lemma sample_suggest:
  "suggest sample_int sample_cfg sample_net sample_library Map.empty [moon] []
     (sample_server, [])
   = (Inr [alien], (sample_server, [GET_similar ''movie'' 100]))"
  by (simp add: suggest_def sample_working sort_and_limit_def py_sort_reverse_def
      py_slice_to_def sample_limits)

lemma negative_working:
  "find_similar_content sample_int negative_cfg sample_net sample_library Map.empty [moon] []
     (sample_server, [])
   = (Inr [alien, cube], (sample_server, [GET_similar ''movie'' 100]))"
  by (simp add: find_similar_content_def moon_def jf_def sample_int_def py_slice_to_def
      sample_limits negative_get_similar as_similar_def tmdb_def vote_avg_def
      sample_library_def alien_def cube_def)

lemma negative_suggest:
  "suggest sample_int negative_cfg sample_net sample_library Map.empty [moon] []
     (sample_server, [])
   = (Inr [alien], (sample_server, [GET_similar ''movie'' 100]))"
  by (simp add: suggest_def negative_working sort_and_limit_def py_sort_reverse_def
      py_slice_to_def sample_limits alien_def cube_def)


lemma single_get_similar:
  "get_similar single_cfg sample_net 100 ''Movie'' (sample_server, [])
     = ([as_similar (tmdb 1 8 200), as_similar (tmdb 3 7 10)],
        (sample_server, [GET_similar ''movie'' 100]))"
  by (simp add: get_similar_def send_def sample_net_def sample_results_def sample_cfg_def
      lenient_cfg_def single_cfg_def tmdb_def py_slice_to_def vote_avg_def vote_count_def
      as_similar_def)

lemma single_working:
  "find_similar_content sample_int single_cfg sample_net sample_library Map.empty [moon] []
     (sample_server, [])
   = (Inr [alien, cube], (sample_server, [GET_similar ''movie'' 100]))"
  by (simp add: find_similar_content_def moon_def jf_def sample_int_def py_slice_to_def
      sample_limits single_get_similar as_similar_def tmdb_def vote_avg_def
      sample_library_def alien_def cube_def)

lemma single_suggest:
  "suggest sample_int single_cfg sample_net sample_library Map.empty [moon] []
     (sample_server, [])
   = (Inr [alien], (sample_server, [GET_similar ''movie'' 100]))"
  by (simp add: suggest_def single_working sort_and_limit_def py_sort_reverse_def
      py_slice_to_def sample_limits alien_def cube_def)

lemma tie_get_similar:
  "get_similar sample_cfg tie_net 100 ''Movie'' (sample_server, [])
     = ([as_similar (tmdb 3 7 200), as_similar (tmdb 1 8 200), as_similar (tmdb 4 7 200)],
        (sample_server, [GET_similar ''movie'' 100]))"
  by (simp add: get_similar_def send_def tie_net_def sample_net_def tie_results_def
      sample_cfg_def tmdb_def py_slice_to_def vote_avg_def vote_count_def as_similar_def)

lemma tie_working:
  "find_similar_content sample_int sample_cfg tie_net tie_library Map.empty [moon] []
     (sample_server, [])
   = (Inr ([cube, alien, dune] @ []), (sample_server, [GET_similar ''movie'' 100]))"
  by (simp add: find_similar_content_def moon_def jf_def sample_int_def py_slice_to_def
      sample_limits tie_get_similar as_similar_def tmdb_def vote_avg_def
      tie_library_def sample_library_def alien_def cube_def dune_def)

lemma tie_suggest:
  "suggest sample_int sample_cfg tie_net tie_library Map.empty [moon] []
     (sample_server, [])
   = (Inr [alien, cube, dune], (sample_server, [GET_similar ''movie'' 100]))"
  by (simp add: suggest_def tie_working sort_and_limit_def py_sort_reverse_def
      py_slice_to_def sample_limits alien_def cube_def dune_def)

section \<open>Properties of the aggregator\<close>

lemma suggest_accepted:
  assumes "suggest py_int cfg net ml sl wm us s = (Inr out, s')"
    and "c \<in> set out"
  shows "accepted cfg net ml (catalog_ids py_int (wm @ us)) ''Movie'' c
       \<or> accepted cfg net sl (catalog_ids py_int (wm @ us)) ''Series'' c"
proof -
  from assms(1) obtain working where
    w: "find_similar_content py_int cfg net ml sl wm us s = (Inr working, s')"
    and out: "out = sort_and_limit cfg working"
    by (rule suggest_cases)
  from assms(2) out set_sort_and_limit [of cfg working] have "c \<in> set working"
    by (simp add: subsetD)
  with w show ?thesis by (rule working_accepted)
qed

lemma accepted_fields:
  assumes "accepted cfg net library excluded media_type c"
  obtains r item where "offered net media_type r" "passes_quality cfg r"
    "result_id r \<notin> excluded" "library (result_id r) = Some item"
    "Id c = item_Id item" "Name c = item_Name item" "Type c = media_type"
    "Score c = vote_avg r"
proof -
  from assms obtain r item where h: "offered net media_type r" "passes_quality cfg r"
    "result_id r \<notin> excluded" "library (result_id r) = Some item"
    "c = \<lparr> Id = item_Id item, Name = item_Name item, Type = media_type,
           Score = vote_avg r \<rparr>"
    unfolding accepted_def by (elim exE conjE)
  from h(5) have "Id c = item_Id item" "Name c = item_Name item" "Type c = media_type"
    "Score c = vote_avg r" by simp_all
  with h(1-4) show ?thesis by (rule that)
qed

text \<open>
  C2: every suggestion of the aggregator's output was built for a provider result whose
  catalog ID is outside the exclusion set (the catalog IDs of the watched movies and of
  the resolved watched series), whichever watched item led to it. Where the local
  identifiers of a library index are unique, the output holds no library item indexed
  under an excluded catalog ID.
\<close>

theorem suggest_excludes_watched:
  assumes "suggest py_int cfg net movie_library series_library watched_movies unique_series s
           = (Inr out, s')"
    and "c \<in> set out"
  shows "(\<exists>r item.
            result_id r \<notin> catalog_ids py_int (watched_movies @ unique_series)
            \<and> (Type c = ''Movie'' \<and> offered net ''Movie'' r
                 \<and> movie_library (result_id r) = Some item
               \<or> Type c = ''Series'' \<and> offered net ''Series'' r
                 \<and> series_library (result_id r) = Some item)
            \<and> Id c = item_Id item \<and> Name c = item_Name item \<and> Score c = vote_avg r)
       \<and> (\<forall>k item.
            k \<in> catalog_ids py_int (watched_movies @ unique_series) \<and> item_Id item = Id c
            \<longrightarrow> \<not> (Type c = ''Movie'' \<and> unique_local_ids movie_library
                      \<and> movie_library k = Some item)
              \<and> \<not> (Type c = ''Series'' \<and> unique_local_ids series_library
                      \<and> series_library k = Some item))"
proof -
  let ?W = "catalog_ids py_int (watched_movies @ unique_series)"
  from suggest_accepted [OF assms]
  have "accepted cfg net movie_library ?W ''Movie'' c
      \<or> accepted cfg net series_library ?W ''Series'' c" .
  then show ?thesis
  proof
    assume "accepted cfg net movie_library ?W ''Movie'' c"
    then obtain r item where h: "offered net ''Movie'' r" "result_id r \<notin> ?W"
      "movie_library (result_id r) = Some item" "Id c = item_Id item"
      "Name c = item_Name item" "Type c = ''Movie''" "Score c = vote_avg r"
      by (rule accepted_fields)
    have first: "\<exists>r item. result_id r \<notin> ?W
            \<and> (Type c = ''Movie'' \<and> offered net ''Movie'' r
                 \<and> movie_library (result_id r) = Some item
               \<or> Type c = ''Series'' \<and> offered net ''Series'' r
                 \<and> series_library (result_id r) = Some item)
            \<and> Id c = item_Id item \<and> Name c = item_Name item \<and> Score c = vote_avg r"
      using h by (intro exI [of _ r] exI [of _ item]) simp
    have second: "\<not> (Type c = ''Movie'' \<and> unique_local_ids movie_library
                      \<and> movie_library k = Some item')
              \<and> \<not> (Type c = ''Series'' \<and> unique_local_ids series_library
                      \<and> series_library k = Some item')"
      if k: "k \<in> ?W \<and> item_Id item' = Id c" for k item'
    proof -
      have "\<not> (unique_local_ids movie_library \<and> movie_library k = Some item')"
      proof
        assume u: "unique_local_ids movie_library \<and> movie_library k = Some item'"
        with h(3,4) k have "k = result_id r"
          unfolding unique_local_ids_def by metis
        with h(2) k show False by simp
      qed
      with h(6) show ?thesis by simp
    qed
    from first second show ?thesis by blast
  next
    assume "accepted cfg net series_library ?W ''Series'' c"
    then obtain r item where h: "offered net ''Series'' r" "result_id r \<notin> ?W"
      "series_library (result_id r) = Some item" "Id c = item_Id item"
      "Name c = item_Name item" "Type c = ''Series''" "Score c = vote_avg r"
      by (rule accepted_fields)
    have first: "\<exists>r item. result_id r \<notin> ?W
            \<and> (Type c = ''Movie'' \<and> offered net ''Movie'' r
                 \<and> movie_library (result_id r) = Some item
               \<or> Type c = ''Series'' \<and> offered net ''Series'' r
                 \<and> series_library (result_id r) = Some item)
            \<and> Id c = item_Id item \<and> Name c = item_Name item \<and> Score c = vote_avg r"
      using h by (intro exI [of _ r] exI [of _ item]) simp
    have second: "\<not> (Type c = ''Movie'' \<and> unique_local_ids movie_library
                      \<and> movie_library k = Some item')
              \<and> \<not> (Type c = ''Series'' \<and> unique_local_ids series_library
                      \<and> series_library k = Some item')"
      if k: "k \<in> ?W \<and> item_Id item' = Id c" for k item'
    proof -
      have "\<not> (unique_local_ids series_library \<and> series_library k = Some item')"
      proof
        assume u: "unique_local_ids series_library \<and> series_library k = Some item'"
        with h(3,4) k have "k = result_id r"
          unfolding unique_local_ids_def by metis
        with h(2) k show False by simp
      qed
      with h(6) show ?thesis by simp
    qed
    from first second show ?thesis by blast
  qed
qed


theorem suggest_excludes_watched_witness:
  "suggest sample_int sample_cfg sample_net sample_library Map.empty [moon] []
     (sample_server, [])
   = (Inr [alien], (sample_server, [GET_similar ''movie'' 100]))
   \<and> alien \<in> set [alien]
   \<and> (\<exists>r item.
         result_id r \<notin> catalog_ids sample_int ([moon] @ [])
         \<and> (Type alien = ''Movie'' \<and> offered sample_net ''Movie'' r
              \<and> sample_library (result_id r) = Some item
            \<or> Type alien = ''Series'' \<and> offered sample_net ''Series'' r
              \<and> Map.empty (result_id r) = Some item)
         \<and> Id alien = item_Id item \<and> Name alien = item_Name item
         \<and> Score alien = vote_avg r)"
proof -
  have mem: "alien \<in> set [alien]" by simp
  from suggest_excludes_watched [OF sample_suggest mem, THEN conjunct1] sample_suggest mem
  show ?thesis by (intro conjI)
qed

text \<open>
  C3: no two suggestions of the aggregator's output have the same server-local
  identifier \<open>Id\<close>.
\<close>

theorem suggest_distinct_ids:
  assumes "suggest py_int cfg net movie_library series_library watched_movies unique_series s
           = (Inr out, s')"
  shows "distinct (map Id out)"
proof -
  from assms obtain working where
    w: "find_similar_content py_int cfg net movie_library series_library watched_movies
          unique_series s = (Inr working, s')"
    and out: "out = sort_and_limit cfg working"
    by (rule suggest_cases)
  from w have "distinct (map Id working)" by (rule working_distinct)
  then have "distinct (map Id (py_sort_reverse Score working))"
    by (simp only: distinct_map_py_sort_reverse)
  then have "distinct (map Id (py_slice_to (max_playlist_items cfg)
                                 (py_sort_reverse Score working)))"
    by (rule distinct_map_py_slice_to)
  with out show ?thesis by (simp add: sort_and_limit_def)
qed

theorem suggest_distinct_ids_witness:
  "suggest sample_int sample_cfg tie_net tie_library Map.empty [moon] [] (sample_server, [])
   = (Inr [alien, cube, dune], (sample_server, [GET_similar ''movie'' 100]))
   \<and> distinct (map Id [alien, cube, dune])"
proof -
  from suggest_distinct_ids [OF tie_suggest] tie_suggest show ?thesis by (intro conjI)
qed

text \<open>
  C4: the aggregator's output is ordered by score, each score at least the next one, and
  suggestions of equal score stand in the order they have in the working list: for every
  score, the output's suggestions of that score are an initial part of the working
  list's. The working list is in the order of insertion: it is what the insertion step of
  the inner loop gives when run over the similar movies in the order they are received
  (watched movie after watched movie, in the provider's order for each), and then, from
  that list on, over the similar series in the order they are received; so it holds the
  suggestions for movies before those for series.
\<close>

theorem suggest_sorted_stable:
  assumes "suggest py_int cfg net movie_library series_library watched_movies unique_series s
           = (Inr out, s')"
  shows "sorted_wrt (\<lambda>a b. Score b \<le> Score a) out
       \<and> (\<exists>movies series s1.
            find_similar_content py_int cfg net movie_library series_library watched_movies
              unique_series s = (Inr (movies @ series), s')
            \<and> (\<forall>k. prefix (filter (\<lambda>c. Score c = k) out)
                         (filter (\<lambda>c. Score c = k) (movies @ series)))
            \<and> (\<forall>c\<in>set movies. Type c = ''Movie'') \<and> (\<forall>c\<in>set series. Type c = ''Series'')
            \<and> similar_loop py_int cfg net movie_library
                 (catalog_ids py_int (watched_movies @ unique_series)) ''Movie''
                 (py_slice_to (max_watched_items cfg) watched_movies) [] s = (Inr movies, s1)
            \<and> movies
                = add_similar movie_library
                    (catalog_ids py_int (watched_movies @ unique_series)) ''Movie''
                    (received py_int cfg net ''Movie''
                       (py_slice_to (max_watched_items cfg) watched_movies) s) []
            \<and> movies @ series
                = add_similar series_library
                    (catalog_ids py_int (watched_movies @ unique_series)) ''Series''
                    (received py_int cfg net ''Series''
                       (py_slice_to (max_watched_items cfg) unique_series) s1) movies)"
proof -
  let ?W = "catalog_ids py_int (watched_movies @ unique_series)"
  from assms obtain working where
    w: "find_similar_content py_int cfg net movie_library series_library watched_movies
          unique_series s = (Inr working, s')"
    and out: "out = sort_and_limit cfg working"
    by (rule suggest_cases)
  have "sorted_wrt (\<lambda>a b. Score b \<le> Score a) (py_sort_reverse Score working)"
    by (rule sorted_py_sort_reverse)
  then have "sorted_wrt (\<lambda>a b. Score b \<le> Score a)
               (py_slice_to (max_playlist_items cfg) (py_sort_reverse Score working))"
    by (rule sorted_wrt_py_slice_to)
  with out have sorted: "sorted_wrt (\<lambda>a b. Score b \<le> Score a) out"
    by (simp add: sort_and_limit_def)
  have stable: "prefix (filter (\<lambda>c. Score c = k) out) (filter (\<lambda>c. Score c = k) working)"
    for k
  proof -
    have "prefix (filter (\<lambda>c. Score c = k)
                    (py_slice_to (max_playlist_items cfg) (py_sort_reverse Score working)))
                 (filter (\<lambda>c. Score c = k) (py_sort_reverse Score working))"
      by (rule filter_py_slice_to_prefix)
    with out show ?thesis
      by (simp add: sort_and_limit_def py_sort_reverse_stable)
  qed
  from w obtain movies s1 where
    l1: "similar_loop py_int cfg net movie_library ?W ''Movie''
           (py_slice_to (max_watched_items cfg) watched_movies) [] s = (Inr movies, s1)"
    and l2: "similar_loop py_int cfg net series_library ?W ''Series''
           (py_slice_to (max_watched_items cfg) unique_series) movies s1 = (Inr working, s')"
    by (rule find_similar_content_cases)
  from similar_loop_append [OF l1] have m: "\<forall>c\<in>set movies. Type c = ''Movie''" by simp
  from similar_loop_append [OF l2] obtain series where
    ms: "working = movies @ series" and se: "\<forall>c\<in>set series. Type c = ''Series''"
    by (elim exE conjE)
  have r1: "movies = add_similar movie_library ?W ''Movie''
                       (received py_int cfg net ''Movie''
                          (py_slice_to (max_watched_items cfg) watched_movies) s) []"
    using l1 by (rule similar_loop_received)
  have r2: "movies @ series = add_similar series_library ?W ''Series''
                       (received py_int cfg net ''Series''
                          (py_slice_to (max_watched_items cfg) unique_series) s1) movies"
    using similar_loop_received [OF l2] ms by simp
  from w ms stable have
    f: "find_similar_content py_int cfg net movie_library series_library watched_movies
          unique_series s = (Inr (movies @ series), s')"
    and st: "\<forall>k. prefix (filter (\<lambda>c. Score c = k) out)
                       (filter (\<lambda>c. Score c = k) (movies @ series))"
    by simp_all
  from f st m se l1 r1 r2 have
    "find_similar_content py_int cfg net movie_library series_library watched_movies
       unique_series s = (Inr (movies @ series), s')
     \<and> (\<forall>k. prefix (filter (\<lambda>c. Score c = k) out)
                  (filter (\<lambda>c. Score c = k) (movies @ series)))
     \<and> (\<forall>c\<in>set movies. Type c = ''Movie'') \<and> (\<forall>c\<in>set series. Type c = ''Series'')
     \<and> similar_loop py_int cfg net movie_library ?W ''Movie''
          (py_slice_to (max_watched_items cfg) watched_movies) [] s = (Inr movies, s1)
     \<and> movies = add_similar movie_library ?W ''Movie''
                  (received py_int cfg net ''Movie''
                     (py_slice_to (max_watched_items cfg) watched_movies) s) []
     \<and> movies @ series = add_similar series_library ?W ''Series''
                  (received py_int cfg net ''Series''
                     (py_slice_to (max_watched_items cfg) unique_series) s1) movies"
    by (intro conjI)
  then have "\<exists>movies series s1.
     find_similar_content py_int cfg net movie_library series_library watched_movies
       unique_series s = (Inr (movies @ series), s')
     \<and> (\<forall>k. prefix (filter (\<lambda>c. Score c = k) out)
                  (filter (\<lambda>c. Score c = k) (movies @ series)))
     \<and> (\<forall>c\<in>set movies. Type c = ''Movie'') \<and> (\<forall>c\<in>set series. Type c = ''Series'')
     \<and> similar_loop py_int cfg net movie_library ?W ''Movie''
          (py_slice_to (max_watched_items cfg) watched_movies) [] s = (Inr movies, s1)
     \<and> movies = add_similar movie_library ?W ''Movie''
                  (received py_int cfg net ''Movie''
                     (py_slice_to (max_watched_items cfg) watched_movies) s) []
     \<and> movies @ series = add_similar series_library ?W ''Series''
                  (received py_int cfg net ''Series''
                     (py_slice_to (max_watched_items cfg) unique_series) s1) movies"
    by (intro exI)
  with sorted show ?thesis by (rule conjI)
qed

theorem suggest_sorted_stable_witness:
  "suggest sample_int sample_cfg tie_net tie_library Map.empty [moon] [] (sample_server, [])
   = (Inr [alien, cube, dune], (sample_server, [GET_similar ''movie'' 100]))
   \<and> find_similar_content sample_int sample_cfg tie_net tie_library Map.empty [moon] []
       (sample_server, [])
     = (Inr ([cube, alien, dune] @ []), (sample_server, [GET_similar ''movie'' 100]))
   \<and> sorted_wrt (\<lambda>a b. Score b \<le> Score a) [alien, cube, dune]
   \<and> filter (\<lambda>c. Score c = 7) [alien, cube, dune] = [cube, dune]
   \<and> filter (\<lambda>c. Score c = 7) ([cube, alien, dune] @ []) = [cube, dune]"
proof -
  from suggest_sorted_stable [OF tie_suggest, THEN conjunct1]
  have "sorted_wrt (\<lambda>a b. Score b \<le> Score a) [alien, cube, dune]" .
  moreover have "filter (\<lambda>c. Score c = 7) [alien, cube, dune] = [cube, dune]"
    "filter (\<lambda>c. Score c = 7) ([cube, alien, dune] @ []) = [cube, dune]"
    by (simp_all add: alien_def cube_def dune_def)
  ultimately show ?thesis using tie_suggest tie_working by (intro conjI)
qed

text \<open>
  C5, as the claim states it, fails for a negative \<open>MAX_PLAYLIST_ITEMS\<close>, which
  \<open>Config.from_env\<close> accepts: the slice \<open>suggested_items[:-1]\<close> drops the last suggestion
  only. With the setting -1 and two suggestions in the working list the output holds
  one suggestion, more than the configured maximum.
\<close>

theorem suggest_length_counterexample:
  "suggest sample_int negative_cfg sample_net sample_library Map.empty [moon] []
     (sample_server, [])
   = (Inr [alien], (sample_server, [GET_similar ''movie'' 100]))
   \<and> max_playlist_items negative_cfg = - 1
   \<and> \<not> int (length [alien]) \<le> max_playlist_items negative_cfg"
  using negative_suggest by (simp add: sample_limits)

text \<open>
  C5, amended: when the configured maximum playlist size is not negative, the
  aggregator's output is at most that long, whatever the watched movies, the watched
  series and the similarity results are.
\<close>

theorem suggest_length_le_max:
  assumes "0 \<le> max_playlist_items cfg"
    and "suggest py_int cfg net movie_library series_library watched_movies unique_series s
         = (Inr out, s')"
  shows "int (length out) \<le> max_playlist_items cfg"
proof -
  from assms(2) obtain working where "out = sort_and_limit cfg working"
    by (rule suggest_cases)
  with length_py_slice_to [OF assms(1)] show ?thesis
    by (simp add: sort_and_limit_def)
qed

theorem suggest_length_le_max_witness:
  "0 \<le> max_playlist_items single_cfg
   \<and> suggest sample_int single_cfg sample_net sample_library Map.empty [moon] []
       (sample_server, [])
     = (Inr [alien], (sample_server, [GET_similar ''movie'' 100]))
   \<and> find_similar_content sample_int single_cfg sample_net sample_library Map.empty [moon] []
       (sample_server, [])
     = (Inr [alien, cube], (sample_server, [GET_similar ''movie'' 100]))
   \<and> int (length [alien]) \<le> max_playlist_items single_cfg"
proof -
  have h: "0 \<le> max_playlist_items single_cfg" by (simp add: sample_limits)
  from suggest_length_le_max [OF h single_suggest] h single_suggest single_working
  show ?thesis by (intro conjI)
qed

text \<open>
  C6: a suggestion of the aggregator's output is the dictionary built for a similarity
  result with all three properties: its rating is at least the minimum rating, its vote
  count is at least the minimum vote count, and its catalog ID is a key of the library
  index of its media kind (the movie index for a result of a movie query, the series
  index for a result of a series query). A result that lacks one of them yields no
  suggestion.
\<close>

theorem suggestion_only_if_all_conditions:
  assumes "suggest py_int cfg net movie_library series_library watched_movies unique_series s
           = (Inr out, s')"
    and "c \<in> set out"
  shows "\<exists>r item.
           min_tmdb_rating cfg \<le> vote_avg r \<and> min_tmdb_votes cfg \<le> vote_count r
           \<and> (Type c = ''Movie'' \<and> offered net ''Movie'' r
                \<and> movie_library (result_id r) = Some item
              \<or> Type c = ''Series'' \<and> offered net ''Series'' r
                \<and> series_library (result_id r) = Some item)
           \<and> c = \<lparr> Id = item_Id item, Name = item_Name item, Type = Type c,
                    Score = vote_avg r \<rparr>"
proof -
  let ?W = "catalog_ids py_int (watched_movies @ unique_series)"
  from suggest_accepted [OF assms]
  have "accepted cfg net movie_library ?W ''Movie'' c
      \<or> accepted cfg net series_library ?W ''Series'' c" .
  then show ?thesis
  proof
    assume "accepted cfg net movie_library ?W ''Movie'' c"
    then obtain r item where h: "offered net ''Movie'' r" "passes_quality cfg r"
      "movie_library (result_id r) = Some item" "Id c = item_Id item"
      "Name c = item_Name item" "Type c = ''Movie''" "Score c = vote_avg r"
      by (rule accepted_fields)
    from h(4,5,7) have "c = \<lparr> Id = item_Id item, Name = item_Name item, Type = Type c,
                    Score = vote_avg r \<rparr>" by simp
    with h(1,2,3,6) show ?thesis
      by (intro exI [of _ r] exI [of _ item]) (simp add: passes_quality_def)
  next
    assume "accepted cfg net series_library ?W ''Series'' c"
    then obtain r item where h: "offered net ''Series'' r" "passes_quality cfg r"
      "series_library (result_id r) = Some item" "Id c = item_Id item"
      "Name c = item_Name item" "Type c = ''Series''" "Score c = vote_avg r"
      by (rule accepted_fields)
    from h(4,5,7) have "c = \<lparr> Id = item_Id item, Name = item_Name item, Type = Type c,
                    Score = vote_avg r \<rparr>" by simp
    with h(1,2,3,6) show ?thesis
      by (intro exI [of _ r] exI [of _ item]) (simp add: passes_quality_def)
  qed
qed

theorem suggestion_only_if_all_conditions_witness:
  "suggest sample_int sample_cfg sample_net sample_library Map.empty [moon] []
     (sample_server, [])
   = (Inr [alien], (sample_server, [GET_similar ''movie'' 100]))
   \<and> alien \<in> set [alien]
   \<and> (\<exists>r item.
         min_tmdb_rating sample_cfg \<le> vote_avg r \<and> min_tmdb_votes sample_cfg \<le> vote_count r
         \<and> (Type alien = ''Movie'' \<and> offered sample_net ''Movie'' r
              \<and> sample_library (result_id r) = Some item
            \<or> Type alien = ''Series'' \<and> offered sample_net ''Series'' r
              \<and> Map.empty (result_id r) = Some item)
         \<and> alien = \<lparr> Id = item_Id item, Name = item_Name item, Type = Type alien,
                      Score = vote_avg r \<rparr>)"
proof -
  have mem: "alien \<in> set [alien]" by simp
  from suggestion_only_if_all_conditions [OF sample_suggest mem] sample_suggest mem
  show ?thesis by (intro conjI)
qed

section \<open>Requests sent\<close>

lemma send_trace: "send ep rq s = (r, s') \<Longrightarrow> snd s' = snd s @ [rq]"
  by (auto simp: send_def split: prod.splits)

lemma get_series_info_trace:
  "get_series_info net user_id series_id s = (r, s')
     \<Longrightarrow> snd s' = snd s @ [GET_Item series_id user_id]"
  by (auto simp: get_series_info_def split: prod.splits reply.splits dest: send_trace)

lemma extract_unique_series_no_write:
  "extract_unique_series net user_id episodes seen unique s = (r, s')
     \<Longrightarrow> filter is_write (snd s') = filter is_write (snd s)"
proof (induction episodes arbitrary: seen unique s)
  case Nil
  then show ?case by simp
next
  case (Cons episode episodes)
  show ?case
  proof (cases "SeriesId episode")
    case None
    with Cons.prems have "extract_unique_series net user_id episodes seen unique s = (r, s')"
      by simp
    then show ?thesis by (rule Cons.IH)
  next
    case (Some series_id)
    show ?thesis
    proof (cases "series_id \<noteq> [] \<and> series_id \<notin> seen")
      case False
      with Some Cons.prems
      have "extract_unique_series net user_id episodes seen unique s = (r, s')"
        by auto
      then show ?thesis by (rule Cons.IH)
    next
      case True
      obtain r1 s1 where g: "get_series_info net user_id series_id s = (r1, s1)"
        by (cases "get_series_info net user_id series_id s")
      from get_series_info_trace [OF g]
      have t1: "filter is_write (snd s1) = filter is_write (snd s)" by simp
      show ?thesis
      proof (cases r1)
        case (Inl e)
        with Some True g Cons.prems have "s' = s1" by simp
        with t1 show ?thesis by simp
      next
        case (Inr series_info)
        with Some True g Cons.prems
        have "extract_unique_series net user_id episodes (insert series_id seen)
                (case series_info of Some info \<Rightarrow> unique @ [info] | None \<Rightarrow> unique) s1
              = (r, s')"
          by simp
        from Cons.IH [OF this] t1 show ?thesis by simp
      qed
    qed
  qed
qed

lemma get_watched_items_trace:
  "get_watched_items cfg net user_id media_type s = (r, s')
     \<Longrightarrow> snd s' = snd s @ [GET_Items_watched user_id media_type (max_watched_items cfg)]"
  by (auto simp: get_watched_items_def split: prod.splits reply.splits dest: send_trace)

lemma suggest_nothing_watched:
  "suggest py_int cfg net movie_library series_library [] [] s = (Inr [], s)"
  by (simp add: suggest_def find_similar_content_def py_slice_to_Nil sort_and_limit_def
      py_sort_reverse_def)

text \<open>
  C7: for a user with no watched movie and no watched series (no episode, or only
  episodes whose series is not resolved), the aggregator's suggestion list is empty and
  \<open>process_user\<close> ends without calling \<open>update_playlist\<close>: it sends no request that
  creates, clears or extends a playlist.
\<close>

theorem no_history_no_playlist_write:
  assumes "get_watched_items cfg net (item_Id user) ''Movie'' s = (Inr [], s1)"
    and "get_watched_items cfg net (item_Id user) ''Episode'' s1 = (Inr watched_series, s2)"
    and "extract_unique_series net (item_Id user) watched_series {} [] s2 = (Inr [], s3)"
  shows "suggest py_int cfg net movie_library series_library [] [] s3 = (Inr [], s3)
       \<and> process_user py_int cfg net user movie_library series_library s = (Inr (), s3)
       \<and> filter is_write (snd s3) = filter is_write (snd s)"
proof -
  have a: "suggest py_int cfg net movie_library series_library [] [] s3 = (Inr [], s3)"
    by (rule suggest_nothing_watched)
  from assms a
  have b: "process_user py_int cfg net user movie_library series_library s = (Inr (), s3)"
    by (simp add: process_user_def)
  from get_watched_items_trace [OF assms(1)] get_watched_items_trace [OF assms(2)]
    extract_unique_series_no_write [OF assms(3)]
  have c: "filter is_write (snd s3) = filter is_write (snd s)" by simp
  from a b c show ?thesis by (intro conjI)
qed

theorem no_history_no_playlist_write_witness:
  "get_watched_items sample_cfg idle_net (item_Id ann) ''Movie'' (sample_server, [])
     = (Inr [], (sample_server, [GET_Items_watched ''u1'' ''Movie'' 20]))
   \<and> get_watched_items sample_cfg idle_net (item_Id ann) ''Episode''
       (sample_server, [GET_Items_watched ''u1'' ''Movie'' 20])
     = (Inr [], (sample_server, [GET_Items_watched ''u1'' ''Movie'' 20,
                                 GET_Items_watched ''u1'' ''Episode'' 20]))
   \<and> extract_unique_series idle_net (item_Id ann) [] {} []
       (sample_server, [GET_Items_watched ''u1'' ''Movie'' 20,
                        GET_Items_watched ''u1'' ''Episode'' 20])
     = (Inr [], (sample_server, [GET_Items_watched ''u1'' ''Movie'' 20,
                                 GET_Items_watched ''u1'' ''Episode'' 20]))
   \<and> process_user sample_int sample_cfg idle_net ann sample_library Map.empty
       (sample_server, [])
     = (Inr (), (sample_server, [GET_Items_watched ''u1'' ''Movie'' 20,
                                 GET_Items_watched ''u1'' ''Episode'' 20]))"
proof -
  have h1: "get_watched_items sample_cfg idle_net (item_Id ann) ''Movie'' (sample_server, [])
     = (Inr [], (sample_server, [GET_Items_watched ''u1'' ''Movie'' 20]))"
    by (simp add: get_watched_items_def send_def idle_net_def sample_net_def ann_def jf_def
        sample_limits)
  have h2: "get_watched_items sample_cfg idle_net (item_Id ann) ''Episode''
       (sample_server, [GET_Items_watched ''u1'' ''Movie'' 20])
     = (Inr [], (sample_server, [GET_Items_watched ''u1'' ''Movie'' 20,
                                 GET_Items_watched ''u1'' ''Episode'' 20]))"
    by (simp add: get_watched_items_def send_def idle_net_def sample_net_def ann_def jf_def
        sample_limits)
  have h3: "extract_unique_series idle_net (item_Id ann) [] {} []
       (sample_server, [GET_Items_watched ''u1'' ''Movie'' 20,
                        GET_Items_watched ''u1'' ''Episode'' 20])
     = (Inr [], (sample_server, [GET_Items_watched ''u1'' ''Movie'' 20,
                                 GET_Items_watched ''u1'' ''Episode'' 20]))"
    by simp
  from no_history_no_playlist_write [OF h1 h2 h3, THEN conjunct2, THEN conjunct1,
      of sample_int sample_library Map.empty] h1 h2 h3
  show ?thesis by (intro conjI)
qed

section \<open>Configuration and start\<close>

lemma rstrip_slash_Nil: "rstrip_slash [] = []"
  by (simp add: rstrip_slash_def)

lemma from_env_missing:
  assumes "env ''JELLYFIN_URL'' = None \<or> env ''JELLYFIN_API_KEY'' = None
         \<or> env ''TMDB_API_KEY'' = None"
  shows "from_env py_int py_float env = Inl ValueError"
proof -
  from assms have "rstrip_slash (getenv env ''JELLYFIN_URL'' '''') = []
      \<or> getenv env ''JELLYFIN_API_KEY'' '''' = [] \<or> getenv env ''TMDB_API_KEY'' '''' = []"
    by (auto simp: getenv_def rstrip_slash_Nil)
  then show ?thesis
    by (auto simp: from_env_def Let_def)
qed

text \<open>
  C8: when one of \<open>JELLYFIN_URL\<close>, \<open>JELLYFIN_API_KEY\<close> and \<open>TMDB_API_KEY\<close> is absent from
  the environment, \<open>Config.from_env\<close> raises \<open>ValueError\<close>, and \<open>main\<close> ends with
  \<open>SystemExit(1)\<close>, a non-zero exit status, without having sent any request.
\<close>

theorem missing_config_exits_before_network:
  assumes "env ''JELLYFIN_URL'' = None \<or> env ''JELLYFIN_API_KEY'' = None
         \<or> env ''TMDB_API_KEY'' = None"
  shows "from_env py_int py_float env = Inl ValueError
       \<and> main py_int py_float env net w = (SystemExit 1, (w, []))
       \<and> exit_status (fst (main py_int py_float env net w)) \<noteq> 0"
proof -
  from assms have e: "from_env py_int py_float env = Inl ValueError"
    by (rule from_env_missing)
  then have m: "main py_int py_float env net w = (SystemExit 1, (w, []))"
    by (simp add: main_def)
  from e m show ?thesis by simp
qed

theorem missing_config_exits_before_network_witness:
  "(sample_env ''JELLYFIN_URL'' = None \<or> sample_env ''JELLYFIN_API_KEY'' = None
      \<or> sample_env ''TMDB_API_KEY'' = None)
   \<and> sample_env ''JELLYFIN_URL'' = Some ''http://jellyfin:8096/''
   \<and> sample_env ''TMDB_API_KEY'' = Some ''secret''
   \<and> main sample_int sample_float sample_env sample_net sample_server
       = (SystemExit 1, (sample_server, []))
   \<and> exit_status (SystemExit 1) = 1"
proof -
  have h: "sample_env ''JELLYFIN_URL'' = None \<or> sample_env ''JELLYFIN_API_KEY'' = None
      \<or> sample_env ''TMDB_API_KEY'' = None"
    by (simp add: sample_env_def)
  have p: "sample_env ''JELLYFIN_URL'' = Some ''http://jellyfin:8096/''"
    "sample_env ''TMDB_API_KEY'' = Some ''secret''"
    by (simp_all add: sample_env_def)
  from missing_config_exits_before_network [OF h, THEN conjunct2, THEN conjunct1,
      of sample_int sample_float sample_net sample_server] h p
  show ?thesis by simp
qed

section \<open>Watched items without a catalog ID\<close>

lemma collect_watched_ids_skip:
  assumes "ProviderIds_Tmdb item = None \<or> ProviderIds_Tmdb item = Some []"
  shows "collect_watched_ids py_int (before @ item # after) ids
       = collect_watched_ids py_int (before @ after) ids"
proof (induction before arbitrary: ids)
  case Nil
  from assms show ?case by auto
next
  case (Cons x before)
  then show ?case by (simp split: option.splits)
qed

lemma similar_loop_skip:
  assumes "ProviderIds_Tmdb item = None \<or> ProviderIds_Tmdb item = Some []"
  shows "similar_loop py_int cfg net library watched media_type (before @ item # after)
           suggested s
       = similar_loop py_int cfg net library watched media_type (before @ after) suggested s"
proof (induction before arbitrary: suggested s)
  case Nil
  from assms show ?case by auto
next
  case (Cons x before)
  then show ?case by (simp split: option.splits prod.splits)
qed

text \<open>
  C9: a watched movie or resolved series without a catalog ID (\<open>ProviderIds.Tmdb\<close>
  missing or empty), at any place of the list, is passed over by the loop that collects
  the exclusion set and by the loop that queries similar items: both loops give what
  they give without the item, the same exclusion set, the same suggestions and the same
  requests sent, so the items before and after it are treated as if it were not there.
\<close>

theorem item_without_catalog_id_is_skipped:
  assumes "ProviderIds_Tmdb item = None \<or> ProviderIds_Tmdb item = Some []"
  shows "collect_watched_ids py_int (before @ item # after) ids
         = collect_watched_ids py_int (before @ after) ids
       \<and> similar_loop py_int cfg net library watched media_type (before @ item # after)
           suggested s
         = similar_loop py_int cfg net library watched media_type (before @ after)
             suggested s"
  using collect_watched_ids_skip [OF assms] similar_loop_skip [OF assms] by (intro conjI)

theorem item_without_catalog_id_is_skipped_witness:
  "(ProviderIds_Tmdb home_video = None \<or> ProviderIds_Tmdb home_video = Some [])
   \<and> collect_watched_ids sample_int ([] @ home_video # [moon]) {} = Inr {100}
   \<and> similar_loop sample_int sample_cfg sample_net sample_library {100} ''Movie''
       ([] @ home_video # [moon]) [] (sample_server, [])
     = (Inr [alien], (sample_server, [GET_similar ''movie'' 100]))"
proof -
  have h: "ProviderIds_Tmdb home_video = None \<or> ProviderIds_Tmdb home_video = Some []"
    by (simp add: home_video_def jf_def)
  have a: "collect_watched_ids sample_int ([] @ [moon]) {} = Inr {100}"
    by (simp add: moon_def jf_def sample_int_def)
  have b: "similar_loop sample_int sample_cfg sample_net sample_library {100} ''Movie''
       ([] @ [moon]) [] (sample_server, [])
     = (Inr [alien], (sample_server, [GET_similar ''movie'' 100]))"
    by (simp add: moon_def jf_def sample_int_def sample_get_similar as_similar_def tmdb_def
        vote_avg_def sample_library_def alien_def)
  from item_without_catalog_id_is_skipped [OF h, of sample_int "[]" "[moon]" "{}" sample_cfg
      sample_net sample_library "{100}" "''Movie''" "[]" "(sample_server, [])"] h a b
  show ?thesis by simp
qed

section \<open>The playlist synchronizer\<close>

lemma clear_playlist_reply:
  assumes "item_ids \<noteq> []"
    and "write_ep net (DELETE_Playlist_Items playlist_id item_ids) w = (Reply status u, w')"
  shows "clear_playlist net playlist_id item_ids (w, t)
       = (Inr (status = 204), (w', t @ [DELETE_Playlist_Items playlist_id item_ids]))"
  using assms by (simp add: clear_playlist_def send_def)

lemma add_to_playlist_reply:
  assumes "item_ids \<noteq> []"
    and "write_ep net (POST_Playlist_Items playlist_id user_id item_ids) w
         = (Reply status u, w')"
  shows "add_to_playlist net playlist_id user_id item_ids (w, t)
       = (Inr (status = 204), (w', t @ [POST_Playlist_Items playlist_id user_id item_ids]))"
  using assms by (simp add: add_to_playlist_def send_def)

text \<open>
  C10: when \<open>update_playlist\<close> finds the playlist and the playlist has entries, it sends
  the removal of the entries and then the append of the new item identifiers, whatever
  status the removal comes back with: the result of \<open>clear_playlist\<close> is not looked at.
  The state of the server at the end is the one the append leaves, starting from the
  one the removal left. So for any reading \<open>contents\<close> of the playlist in the server's
  state: if the failed removal left the contents as they were and the append added the
  new identifiers, the playlist holds the old contents followed by the new identifiers.
\<close>

theorem update_playlist_appends_whatever_clear_returns:
  assumes "get_user_playlists net user_id s = (Inr playlists, s1)"
    and "find (\<lambda>p. item_Name p = playlist_name cfg) playlists = Some existing_playlist"
    and "get_playlist_items net (item_Id existing_playlist) user_id s1
         = (Inr current_items, (w2, t2))"
    and "current_items \<noteq> []"
    and "items \<noteq> []"
    and "write_ep net (DELETE_Playlist_Items (item_Id existing_playlist)
                         (map PlaylistItemId current_items)) w2
         = (Reply clear_status (), w3)"
    and "write_ep net (POST_Playlist_Items (item_Id existing_playlist) user_id
                         (map Id items)) w3
         = (Reply add_status (), w4)"
  shows "update_playlist cfg net user_id user_name items s
         = (Inr (), (w4, t2 @ [DELETE_Playlist_Items (item_Id existing_playlist)
                                 (map PlaylistItemId current_items),
                               POST_Playlist_Items (item_Id existing_playlist) user_id
                                 (map Id items)]))
       \<and> (clear_status \<noteq> 204 \<and> contents w3 = contents w2
          \<and> add_status = 204 \<and> contents w4 = contents w3 @ map Id items
          \<longrightarrow> contents (fst (snd (update_playlist cfg net user_id user_name items s)))
                = contents w2 @ map Id items
              \<and> contents (fst (snd (update_playlist cfg net user_id user_name items s)))
                \<noteq> [])"
proof -
  let ?pid = "item_Id existing_playlist"
  let ?del = "DELETE_Playlist_Items ?pid (map PlaylistItemId current_items)"
  let ?post = "POST_Playlist_Items ?pid user_id (map Id items)"
  from assms(4) have ne: "map PlaylistItemId current_items \<noteq> []" by simp
  from assms(5) have ni: "map Id items \<noteq> []" by simp
  have c: "clear_playlist net ?pid (map PlaylistItemId current_items) (w2, t2)
           = (Inr (clear_status = 204), (w3, t2 @ [?del]))"
    using ne assms(6) by (rule clear_playlist_reply)
  have a: "add_to_playlist net ?pid user_id (map Id items) (w3, t2 @ [?del])
           = (Inr (add_status = 204), (w4, (t2 @ [?del]) @ [?post]))"
    using ni assms(7) by (rule add_to_playlist_reply)
  from assms(1,2,3,4) c a
  have u: "update_playlist cfg net user_id user_name items s
           = (Inr (), (w4, t2 @ [?del, ?post]))"
    by (simp add: update_playlist_def Let_def)
  from assms(5) have "contents w2 @ map Id items \<noteq> []" by simp
  with u show ?thesis by simp
qed

theorem update_playlist_appends_whatever_clear_returns_witness:
  "get_user_playlists sample_net ''u1'' (sample_server, [])
     = (Inr [jf ''P'' ''Suggested For You'' None],
        (sample_server, [GET_Items_playlists ''u1'']))
   \<and> find (\<lambda>p. item_Name p = playlist_name sample_cfg) [jf ''P'' ''Suggested For You'' None]
     = Some (jf ''P'' ''Suggested For You'' None)
   \<and> get_playlist_items sample_net (item_Id (jf ''P'' ''Suggested For You'' None)) ''u1''
       (sample_server, [GET_Items_playlists ''u1''])
     = (Inr (entries sample_server),
        (sample_server, [GET_Items_playlists ''u1'', GET_Playlist_Items ''P'' ''u1'']))
   \<and> entries sample_server \<noteq> []
   \<and> [alien] \<noteq> []
   \<and> write_ep sample_net
       (DELETE_Playlist_Items (item_Id (jf ''P'' ''Suggested For You'' None))
          (map PlaylistItemId (entries sample_server))) sample_server
     = (Reply 500 (), sample_server)
   \<and> write_ep sample_net
       (POST_Playlist_Items (item_Id (jf ''P'' ''Suggested For You'' None)) ''u1''
          (map Id [alien])) sample_server
     = (Reply 204 (), sample_server\<lparr>entries := entries sample_server @ [entry ''e-A'' ''A'']\<rparr>)
   \<and> update_playlist sample_cfg sample_net ''u1'' ''ann'' [alien] (sample_server, [])
     = (Inr (),
        (sample_server\<lparr>entries := entries sample_server @ [entry ''e-A'' ''A'']\<rparr>,
         [GET_Items_playlists ''u1'', GET_Playlist_Items ''P'' ''u1'',
          DELETE_Playlist_Items ''P'' [''e1'', ''e2'', ''e3''],
          POST_Playlist_Items ''P'' ''u1'' [''A'']]))
   \<and> map item_Id (entries (sample_server\<lparr>entries := entries sample_server
                                              @ [entry ''e-A'' ''A'']\<rparr>))
     = [''X'', ''Y'', ''Z'', ''A'']"
proof -
  let ?p = "jf ''P'' ''Suggested For You'' None"
  let ?end = "sample_server\<lparr>entries := entries sample_server @ [entry ''e-A'' ''A'']\<rparr>"
  have h1: "get_user_playlists sample_net ''u1'' (sample_server, [])
     = (Inr [?p], (sample_server, [GET_Items_playlists ''u1'']))"
    by (simp add: get_user_playlists_def send_def sample_net_def)
  have h2: "find (\<lambda>p. item_Name p = playlist_name sample_cfg) [?p] = Some ?p"
    by (simp add: jf_def sample_cfg_def)
  have h3: "get_playlist_items sample_net (item_Id ?p) ''u1''
       (sample_server, [GET_Items_playlists ''u1''])
     = (Inr (entries sample_server),
        (sample_server, [GET_Items_playlists ''u1'', GET_Playlist_Items ''P'' ''u1'']))"
    by (simp add: get_playlist_items_def send_def sample_net_def jf_def)
  have h4: "entries sample_server \<noteq> []" by (simp add: sample_server_def)
  have h5: "[alien] \<noteq> []" by simp
  have h6: "write_ep sample_net
       (DELETE_Playlist_Items (item_Id ?p) (map PlaylistItemId (entries sample_server)))
       sample_server
     = (Reply 500 (), sample_server)"
    by (simp add: sample_net_def sample_server_def)
  have h7: "write_ep sample_net
       (POST_Playlist_Items (item_Id ?p) ''u1'' (map Id [alien])) sample_server
     = (Reply 204 (), ?end)"
    by (simp add: sample_net_def sample_server_def alien_def)
  have ids: "item_Id ?p = ''P''"
    "map PlaylistItemId (entries sample_server) = [''e1'', ''e2'', ''e3'']"
    "map Id [alien] = [''A'']"
    by (simp_all add: jf_def sample_server_def entry_def alien_def)
  have final: "map item_Id (entries ?end) = [''X'', ''Y'', ''Z'', ''A'']"
    by (simp add: sample_server_def entry_def)
  from update_playlist_appends_whatever_clear_returns
         [OF h1 h2 h3 h4 h5 h6 h7, THEN conjunct1, of "''ann''"]
  have "update_playlist sample_cfg sample_net ''u1'' ''ann'' [alien] (sample_server, [])
     = (Inr (), (?end,
         [GET_Items_playlists ''u1'', GET_Playlist_Items ''P'' ''u1'',
          DELETE_Playlist_Items ''P'' [''e1'', ''e2'', ''e3''],
          POST_Playlist_Items ''P'' ''u1'' [''A'']]))"
    by (simp only: ids append.simps)
  with h1 h2 h3 h4 h5 h6 h7 final show ?thesis by (intro conjI)
qed

end
